theory Spec2Isabelle
  imports Main
begin

section \<open>Values, errors and string helpers\<close>

text \<open>
  The generator of \<^verbatim>\<open>eu5/generate_tables.py\<close> reads attributes of parsed entities by
  name (\<^verbatim>\<open>hasattr\<close>, \<^verbatim>\<open>getattr\<close>) and builds wiki markup from them. An entity is
  modelled by its attribute dictionary, a partial map from attribute names to values;
  \<^verbatim>\<open>hasattr(e, a)\<close> is \<open>a \<in> dom e\<close>. Python strings are lists of characters; a
  \<^typ>\<open>char\<close> stands for a code point below 256.
\<close>

datatype error = AttributeError | KeyError | TypeError

datatype val =
    VNone
  | VBool bool
  | VInt int
  | VStr string
  | VList "val list"
  | VLocation "string option"
  | VModifier string
  | VObj string

text \<open>
  \<open>VLocation p\<close> is a Location object whose \<^verbatim>\<open>province\<close> attribute is \<open>p\<close> (a province
  name, or \<^verbatim>\<open>None\<close>); \<open>VModifier s\<close> is a modifier object whose \<^verbatim>\<open>format_for_wiki()\<close>
  returns \<open>s\<close>; \<open>VObj s\<close> is any other object, identified by \<open>s\<close>.
\<close>

type_synonym entity = "string \<rightharpoonup> val"

definition nl :: string where
  "nl = [CHR 0x0A]"

text \<open>\<^verbatim>\<open>sep.join(xs)\<close>\<close>

fun join :: "string \<Rightarrow> string list \<Rightarrow> string" where
  "join sep [] = []"
| "join sep [x] = x"
| "join sep (x # y # ys) = x @ sep @ join sep (y # ys)"

text \<open>
  \<^verbatim>\<open>str.isspace\<close> on one character, for the code points below 256: the ASCII
  controls 9 to 13 and 28 to 31, the space, NEL (133) and the no-break space (160).
\<close>

definition py_isspace :: "char \<Rightarrow> bool" where
  "py_isspace c =
     (let n = (of_char c :: nat)
      in (9 \<le> n \<and> n \<le> 13) \<or> (28 \<le> n \<and> n \<le> 31) \<or> n = 32 \<or> n = 133 \<or> n = 160)"

text \<open>\<^verbatim>\<open>s.strip()\<close>\<close>

definition strip :: "string \<Rightarrow> string" where
  "strip s = rev (dropWhile py_isspace (rev (dropWhile py_isspace s)))"

section \<open>merge\_multiple\_sections\<close>

text \<open>
  The argument is a dict or a list of pairs; a dict is replaced by the list of its items,
  in insertion order.
\<close>

datatype headers_with_content =
    HDict "(string \<times> string) list"
  | HList "(string \<times> string) list"

fun items_of :: "headers_with_content \<Rightarrow> (string \<times> string) list" where
  "items_of (HDict kvs) = kvs"
| "items_of (HList kvs) = kvs"

definition bold_quotes :: string where
  "bold_quotes = [CHR 0x27, CHR 0x27, CHR 0x27]"

fun merge_loop :: "(string \<times> string) list \<Rightarrow> string list \<Rightarrow> string list" where
  "merge_loop [] result = result"
| "merge_loop ((header, content) # rest) result =
     (if strip content = [] then merge_loop rest result
      else
        let section = [];
            section = (if header \<noteq> [] then section @ [bold_quotes @ header @ '':'' @ bold_quotes]
                       else section);
            section = section @ [content]
        in merge_loop rest (result @ [join nl section]))"

definition merge_multiple_sections :: "headers_with_content \<Rightarrow> string" where
  "merge_multiple_sections headers_with_content =
     join nl (merge_loop (items_of headers_with_content) [])"

text \<open>What the claim calls a blank content, and the rendering of one kept pair.\<close>

definition blank :: "string \<Rightarrow> bool" where
  "blank s = (\<forall>c \<in> set s. py_isspace c)"

definition render_pair :: "string \<times> string \<Rightarrow> string" where
  "render_pair hc =
     (if fst hc \<noteq> [] then bold_quotes @ fst hc @ '':'' @ bold_quotes @ nl @ snd hc
      else snd hc)"

section \<open>infer\_country\_rank\_key\<close>

text \<open>
  A country has a tag (\<^verbatim>\<open>country.name\<close>) and the attributes the parser has set on it,
  which the code probes with \<^verbatim>\<open>hasattr\<close>.
\<close>

record country =
  name :: string
  attrs :: entity

definition candidates :: "string list" where
  "candidates =
     [''own_control_core'', ''own_core'', ''control'',
      ''own_conquered'', ''own_control_conquered'', ''own_control_integrated'',
      ''own_control_colony'']"

text \<open>
  \<^verbatim>\<open>try: prov = loc.province except Exception: prov = None\<close>: only a Location has the
  attribute.
\<close>

fun province_of :: "val \<Rightarrow> string option" where
  "province_of (VLocation p) = p"
| "province_of _ = None"

text \<open>The inner loop over the entries of one attribute value.\<close>

fun add_provinces :: "val list \<Rightarrow> string set \<Rightarrow> string set" where
  "add_provinces [] provinces = provinces"
| "add_provinces (loc # rest) provinces =
     (case province_of loc of
        None \<Rightarrow> add_provinces rest provinces
      | Some prov \<Rightarrow> add_provinces rest (insert prov provinces))"

text \<open>The outer loop over the attribute names.\<close>

fun collect_provinces :: "string list \<Rightarrow> country \<Rightarrow> string set \<Rightarrow> string set" where
  "collect_provinces [] c provinces = provinces"
| "collect_provinces (attr # rest) c provinces =
     (case attrs c attr of
        Some (VList v) \<Rightarrow>
          (if length v > 0 then collect_provinces rest c (add_provinces v provinces)
           else collect_provinces rest c provinces)
      | _ \<Rightarrow> collect_provinces rest c provinces)"

text \<open>The declared return type is \<^verbatim>\<open>str | None\<close>.\<close>

definition infer_country_rank_key :: "country \<Rightarrow> string option" where
  "infer_country_rank_key c =
     (let provinces = collect_provinces candidates c {};
          n = card provinces
      in if n \<le> 0 then Some ''rank_county''
         else if n \<le> 2 then Some ''rank_county''
         else if n \<le> 5 then Some ''rank_duchy''
         else if n \<le> 12 then Some ''rank_kingdom''
         else Some ''rank_empire'')"

text \<open>
  The provinces of a country as the claim describes them: the union, over the ownership
  attributes, of the provinces of the locations listed there.
\<close>

definition provinces_in :: "val \<Rightarrow> string set" where
  "provinces_in v = (case v of VList locs \<Rightarrow> {p. VLocation (Some p) \<in> set locs} | _ \<Rightarrow> {})"

definition owned_provinces :: "country \<Rightarrow> string set" where
  "owned_provinces c =
     (\<Union>a \<in> set candidates. case attrs c a of None \<Rightarrow> {} | Some v \<Rightarrow> provinces_in v)"

section \<open>\_format\_time\_to\_implement\<close>

text \<open>\<^verbatim>\<open>str(n)\<close> for a Python integer.\<close>

fun str_nat :: "nat \<Rightarrow> string" where
  "str_nat n =
     (if n < 10 then [char_of (48 + n)] else str_nat (n div 10) @ [char_of (48 + n mod 10)])"

declare str_nat.simps [simp del]

definition str_int :: "int \<Rightarrow> string" where
  "str_int i = (if i < 0 then ''-'' @ str_nat (nat (- i)) else str_nat (nat i))"

record law_policy =
  days :: int
  weeks :: int
  months :: int
  years :: int

text \<open>
  The first half of \<^verbatim>\<open>_format_time_to_implement\<close>: the three carries into years.
  The result is (years, months, weeks, days). Python's \<^verbatim>\<open>//\<close> and \<^verbatim>\<open>%\<close> round
  towards minus infinity, as \<open>div\<close> and \<open>mod\<close> on \<^typ>\<open>int\<close> do.
\<close>

definition normalize_time :: "law_policy \<Rightarrow> int \<times> int \<times> int \<times> int" where
  "normalize_time policy =
     (let d = days policy; w = weeks policy; m = months policy; y = years policy;
          (y, d) = (if d \<ge> 365 then (y + d div 365, d mod 365) else (y, d));
          (y, w) = (if w \<ge> 52 then (y + w div 52, w mod 52) else (y, w));
          (y, m) = (if m \<ge> 12 then (y + m div 12, m mod 12) else (y, m))
      in (y, m, w, d))"

text \<open>
  The second half: the test against the default, and the list of components.
  \<^verbatim>\<open>days == weeks == months == 0\<close> is a chained comparison.
\<close>

definition format_time_to_implement :: "law_policy \<Rightarrow> int \<Rightarrow> string" where
  "format_time_to_implement policy ignore_default_years =
     (case normalize_time policy of (y, m, w, d) \<Rightarrow>
        if y = ignore_default_years \<and> (d = w \<and> w = m \<and> m = 0) then []
        else
          let result = [];
              result = (if y > 0 then result @ [str_int y @ '' years''] else result);
              result = (if m > 0 then result @ [str_int m @ '' months''] else result);
              result = (if w > 0 then result @ [str_int w @ '' weeks''] else result);
              result = (if d > 0 then result @ [str_int d @ '' days''] else result)
          in join nl result)"

text \<open>The cell of the law policy table calls it with \<^verbatim>\<open>ignore_default_years=2\<close>.\<close>

definition time_to_implement_cell :: "law_policy \<Rightarrow> string" where
  "time_to_implement_cell policy = format_time_to_implement policy 2"

text \<open>One component of the output, and the components that are shown.\<close>

definition time_component :: "int \<times> string \<Rightarrow> string" where
  "time_component nu = str_int (fst nu) @ '' '' @ snd nu"

definition shown_components :: "int \<times> int \<times> int \<times> int \<Rightarrow> (int \<times> string) list" where
  "shown_components t =
     (case t of (y, m, w, d) \<Rightarrow>
        filter (\<lambda>nu. fst nu > 0) [(y, ''years''), (m, ''months''), (w, ''weeks''), (d, ''days'')])"

section \<open>Boolean cells\<close>

text \<open>
  A boolean attribute holds \<^verbatim>\<open>None\<close>, \<^verbatim>\<open>True\<close> or \<^verbatim>\<open>False\<close>; an entity is
  represented here by its boolean attributes, by name. For each generator that renders
  a boolean attribute, the boolean columns of its row dictionary follow, in the order of
  the source, as pairs of column label and cell.
\<close>

type_synonym flags = "string \<Rightarrow> bool option"

text \<open>\<^verbatim>\<open>if x\<close> for such a value: \<^verbatim>\<open>None\<close> is falsy.\<close>

definition truthy :: "bool option \<Rightarrow> bool" where
  "truthy x = (case x of None \<Rightarrow> False | Some b \<Rightarrow> b)"

text \<open>\<^verbatim>\<open>get_law_data\<close>, lines 533 to 536.\<close>

definition get_law_data_bool_cells :: "flags \<Rightarrow> (string \<times> string) list" where
  "get_law_data_bool_cells law =
     [(''Requires Vote'',
        if law ''requires_vote'' = None then []
        else if truthy (law ''requires_vote'') then ''[[File:Yes.png|20px|Requires Vote]]''
        else ''[[File:No.png|20px|Not Requires Vote]]''),
      (''Unique'',
        if law ''unique'' = None then []
        else if truthy (law ''unique'') then ''[[File:Yes.png|20px|Unique]]''
        else ''[[File:No.png|20px|Not Unique]]'')]"

text \<open>\<^verbatim>\<open>get_law_policy_table\<close>, lines 611 to 623.\<close>

definition get_law_policy_table_bool_cells :: "flags \<Rightarrow> (string \<times> string) list" where
  "get_law_policy_table_bool_cells policy =
     [(''Gold'',
        if policy ''gold'' = None then []
        else if truthy (policy ''gold'') then ''[[File:Yes.png|20px|Gold]]''
        else ''[[File:No.png|20px|Not Gold]]''),
      (''Manpower'',
        if policy ''manpower'' = None then []
        else if truthy (policy ''manpower'') then ''[[File:Yes.png|20px|Manpower]]''
        else ''[[File:No.png|20px|Not Manpower]]''),
      (''Allow Member Annexation'',
        if policy ''allow_member_annexation'' = None then []
        else if truthy (policy ''allow_member_annexation'') then ''[[File:Yes.png|20px|Allow Member Annexation]]''
        else ''[[File:No.png|20px|Not Allow Member Annexation]]''),
      (''Can Build Buildings In Members'',
        if policy ''can_build_buildings_in_members'' = None then []
        else if truthy (policy ''can_build_buildings_in_members'') then ''[[File:Yes.png|20px|Can Build Buildings In Members]]''
        else ''[[File:No.png|20px|Not Can Build Buildings In Members]]''),
      (''Can Build Rgos In Members'',
        if policy ''can_build_rgos_in_members'' = None then []
        else if truthy (policy ''can_build_rgos_in_members'') then ''[[File:Yes.png|20px|Can Build Rgos In Members]]''
        else ''[[File:No.png|20px|Not Can Build Rgos In Members]]''),
      (''Can Build Roads In Members'',
        if policy ''can_build_roads_in_members'' = None then []
        else if truthy (policy ''can_build_roads_in_members'') then ''[[File:Yes.png|20px|Can Build Roads In Members]]''
        else ''[[File:No.png|20px|Not Can Build Roads In Members]]''),
      (''Has Parliament'',
        if policy ''has_parliament'' = None then []
        else if truthy (policy ''has_parliament'') then ''[[File:Yes.png|20px|Has Parliament]]''
        else ''[[File:No.png|20px|Not Has Parliament]]'')]"

text \<open>\<^verbatim>\<open>generate_advances_table\<close>, line 1031.\<close>

definition generate_advances_table_bool_cells :: "flags \<Rightarrow> (string \<times> string) list" where
  "generate_advances_table_bool_cells advances =
     [(''Allow Children'',
        if truthy (advances ''allow_children'') then ''[[File:Yes.png|20px|Allow Children]]''
        else ''[[File:No.png|20px|Not Allow Children]]'')]"

text \<open>\<^verbatim>\<open>generate_cabinet_actions_table\<close>, lines 1070 to 1073.\<close>

definition generate_cabinet_actions_table_bool_cells :: "flags \<Rightarrow> (string \<times> string) list" where
  "generate_cabinet_actions_table_bool_cells cabinet_actions =
     [(''Allow Multiple'',
        if cabinet_actions ''allow_multiple'' = None then []
        else if truthy (cabinet_actions ''allow_multiple'') then ''[[File:Yes.png|20px|Allow Multiple]]''
        else ''[[File:No.png|20px|Not Allow Multiple]]''),
      (''Forbid For Automation'',
        if truthy (cabinet_actions ''forbid_for_automation'') then ''[[File:Yes.png|20px|Forbid For Automation]]''
        else ''[[File:No.png|20px|Not Forbid For Automation]]'')]"

text \<open>\<^verbatim>\<open>generate_casus_belli_table\<close>, lines 1105 to 1115.\<close>

definition generate_casus_belli_table_bool_cells :: "flags \<Rightarrow> (string \<times> string) list" where
  "generate_casus_belli_table_bool_cells casus_belli =
     [(''Allow Ports For Reach Ai'',
        if truthy (casus_belli ''allow_ports_for_reach_ai'') then ''[[File:Yes.png|20px|Allow Ports For Reach Ai]]''
        else ''[[File:No.png|20px|Not Allow Ports For Reach Ai]]''),
      (''Allow Release Areas'',
        if truthy (casus_belli ''allow_release_areas'') then ''[[File:Yes.png|20px|Allow Release Areas]]''
        else ''[[File:No.png|20px|Not Allow Release Areas]]''),
      (''Allow Separate Peace'',
        if truthy (casus_belli ''allow_separate_peace'') then ''[[File:Yes.png|20px|Allow Separate Peace]]''
        else ''[[File:No.png|20px|Not Allow Separate Peace]]''),
      (''Can Expire'',
        if truthy (casus_belli ''can_expire'') then ''[[File:Yes.png|20px|Can Expire]]''
        else ''[[File:No.png|20px|Not Can Expire]]''),
      (''Cut Down In Size Cb'',
        if truthy (casus_belli ''cut_down_in_size_cb'') then ''[[File:Yes.png|20px|Cut Down In Size Cb]]''
        else ''[[File:No.png|20px|Not Cut Down In Size Cb]]''),
      (''No Cb'',
        if casus_belli ''no_cb'' = None then []
        else if truthy (casus_belli ''no_cb'') then ''[[File:Yes.png|20px|No Cb]]''
        else ''[[File:No.png|20px|Not No Cb]]''),
      (''Trade'',
        if truthy (casus_belli ''trade'') then ''[[File:Yes.png|20px|Trade]]''
        else ''[[File:No.png|20px|Not Trade]]'')]"

text \<open>\<^verbatim>\<open>generate_cultures_table\<close>, line 1137.\<close>

definition generate_cultures_table_bool_cells :: "flags \<Rightarrow> (string \<times> string) list" where
  "generate_cultures_table_bool_cells cultures =
     [(''Use Patronym'',
        if truthy (cultures ''use_patronym'') then ''[[File:Yes.png|20px|Use Patronym]]''
        else ''[[File:No.png|20px|Not Use Patronym]]'')]"

text \<open>\<^verbatim>\<open>generate_languages_table\<close>, line 1489.\<close>

definition generate_languages_table_bool_cells :: "flags \<Rightarrow> (string \<times> string) list" where
  "generate_languages_table_bool_cells languages =
     [(''Require Genitive Location Names'',
        if truthy (languages ''require_genitive_location_names'') then ''[[File:Yes.png|20px|Require Genitive Location Names]]''
        else ''[[File:No.png|20px|Not Require Genitive Location Names]]'')]"

text \<open>\<^verbatim>\<open>generate_peace_treaties_table\<close>, lines 1539 to 1541.\<close>

definition generate_peace_treaties_table_bool_cells :: "flags \<Rightarrow> (string \<times> string) list" where
  "generate_peace_treaties_table_bool_cells peace_treaties =
     [(''Are Targets Exclusive'',
        if truthy (peace_treaties ''are_targets_exclusive'') then ''[[File:Yes.png|20px|Are Targets Exclusive]]''
        else ''[[File:No.png|20px|Not Are Targets Exclusive]]''),
      (''Blocks Full Annexation'',
        if truthy (peace_treaties ''blocks_full_annexation'') then ''[[File:Yes.png|20px|Blocks Full Annexation]]''
        else ''[[File:No.png|20px|Not Blocks Full Annexation]]'')]"

text \<open>\<^verbatim>\<open>generate_religions_table\<close>, lines 1563 to 1596.\<close>

definition generate_religions_table_bool_cells :: "flags \<Rightarrow> (string \<times> string) list" where
  "generate_religions_table_bool_cells religions =
     [(''Ai Wants Convert'',
        if truthy (religions ''ai_wants_convert'') then ''[[File:Yes.png|20px|Ai Wants Convert]]''
        else ''[[File:No.png|20px|Not Ai Wants Convert]]''),
      (''Culture Locked'',
        if truthy (religions ''culture_locked'') then ''[[File:Yes.png|20px|Culture Locked]]''
        else ''[[File:No.png|20px|Not Culture Locked]]''),
      (''Has Autocephalous Patriarchates'',
        if truthy (religions ''has_autocephalous_patriarchates'') then ''[[File:Yes.png|20px|Has Autocephalous Patriarchates]]''
        else ''[[File:No.png|20px|Not Has Autocephalous Patriarchates]]''),
      (''Has Avatars'',
        if truthy (religions ''has_avatars'') then ''[[File:Yes.png|20px|Has Avatars]]''
        else ''[[File:No.png|20px|Not Has Avatars]]''),
      (''Has Canonization'',
        if truthy (religions ''has_canonization'') then ''[[File:Yes.png|20px|Has Canonization]]''
        else ''[[File:No.png|20px|Not Has Canonization]]''),
      (''Has Cardinals'',
        if truthy (religions ''has_cardinals'') then ''[[File:Yes.png|20px|Has Cardinals]]''
        else ''[[File:No.png|20px|Not Has Cardinals]]''),
      (''Has Doom'',
        if truthy (religions ''has_doom'') then ''[[File:Yes.png|20px|Has Doom]]''
        else ''[[File:No.png|20px|Not Has Doom]]''),
      (''Has Honor'',
        if truthy (religions ''has_honor'') then ''[[File:Yes.png|20px|Has Honor]]''
        else ''[[File:No.png|20px|Not Has Honor]]''),
      (''Has Karma'',
        if truthy (religions ''has_karma'') then ''[[File:Yes.png|20px|Has Karma]]''
        else ''[[File:No.png|20px|Not Has Karma]]''),
      (''Has Patriarchs'',
        if truthy (religions ''has_patriarchs'') then ''[[File:Yes.png|20px|Has Patriarchs]]''
        else ''[[File:No.png|20px|Not Has Patriarchs]]''),
      (''Has Purity'',
        if truthy (religions ''has_purity'') then ''[[File:Yes.png|20px|Has Purity]]''
        else ''[[File:No.png|20px|Not Has Purity]]''),
      (''Has Religious Head'',
        if truthy (religions ''has_religious_head'') then ''[[File:Yes.png|20px|Has Religious Head]]''
        else ''[[File:No.png|20px|Not Has Religious Head]]''),
      (''Has Religious Influence'',
        if truthy (religions ''has_religious_influence'') then ''[[File:Yes.png|20px|Has Religious Influence]]''
        else ''[[File:No.png|20px|Not Has Religious Influence]]''),
      (''Has Rite Power'',
        if truthy (religions ''has_rite_power'') then ''[[File:Yes.png|20px|Has Rite Power]]''
        else ''[[File:No.png|20px|Not Has Rite Power]]''),
      (''Has Yanantin'',
        if truthy (religions ''has_yanantin'') then ''[[File:Yes.png|20px|Has Yanantin]]''
        else ''[[File:No.png|20px|Not Has Yanantin]]''),
      (''Needs Reform'',
        if truthy (religions ''needs_reform'') then ''[[File:Yes.png|20px|Needs Reform]]''
        else ''[[File:No.png|20px|Not Needs Reform]]''),
      (''Use Icons'',
        if truthy (religions ''use_icons'') then ''[[File:Yes.png|20px|Use Icons]]''
        else ''[[File:No.png|20px|Not Use Icons]]'')]"

text \<open>\<^verbatim>\<open>generate_subject_types_table\<close>, lines 1633 to 1686.\<close>

definition generate_subject_types_table_bool_cells :: "flags \<Rightarrow> (string \<times> string) list" where
  "generate_subject_types_table_bool_cells subject_types' =
     [(''Allow Declaring Wars'',
        if truthy (subject_types' ''allow_declaring_wars'') then ''[[File:Yes.png|20px|Allow Declaring Wars]]''
        else ''[[File:No.png|20px|Not Allow Declaring Wars]]''),
      (''Can Be Force Broken In Peace Treaty'',
        if truthy (subject_types' ''can_be_force_broken_in_peace_treaty'') then ''[[File:Yes.png|20px|Can Be Force Broken In Peace Treaty]]''
        else ''[[File:No.png|20px|Not Can Be Force Broken In Peace Treaty]]''),
      (''Can Change Heir Selection'',
        if truthy (subject_types' ''can_change_heir_selection'') then ''[[File:Yes.png|20px|Can Change Heir Selection]]''
        else ''[[File:No.png|20px|Not Can Change Heir Selection]]''),
      (''Can Change Rank'',
        if truthy (subject_types' ''can_change_rank'') then ''[[File:Yes.png|20px|Can Change Rank]]''
        else ''[[File:No.png|20px|Not Can Change Rank]]''),
      (''Can Overlord Build Buildings'',
        if truthy (subject_types' ''can_overlord_build_buildings'') then ''[[File:Yes.png|20px|Can Overlord Build Buildings]]''
        else ''[[File:No.png|20px|Not Can Overlord Build Buildings]]''),
      (''Can Overlord Build Rgos'',
        if truthy (subject_types' ''can_overlord_build_rgos'') then ''[[File:Yes.png|20px|Can Overlord Build Rgos]]''
        else ''[[File:No.png|20px|Not Can Overlord Build Rgos]]''),
      (''Can Overlord Build Roads'',
        if truthy (subject_types' ''can_overlord_build_roads'') then ''[[File:Yes.png|20px|Can Overlord Build Roads]]''
        else ''[[File:No.png|20px|Not Can Overlord Build Roads]]''),
      (''Can Overlord Build Ships'',
        if truthy (subject_types' ''can_overlord_build_ships'') then ''[[File:Yes.png|20px|Can Overlord Build Ships]]''
        else ''[[File:No.png|20px|Not Can Overlord Build Ships]]''),
      (''Can Overlord Recruit Regiments'',
        if truthy (subject_types' ''can_overlord_recruit_regiments'') then ''[[File:Yes.png|20px|Can Overlord Recruit Regiments]]''
        else ''[[File:No.png|20px|Not Can Overlord Recruit Regiments]]''),
      (''Fleet Basing Rights'',
        if truthy (subject_types' ''fleet_basing_rights'') then ''[[File:Yes.png|20px|Fleet Basing Rights]]''
        else ''[[File:No.png|20px|Not Fleet Basing Rights]]''),
      (''Food Access'',
        if truthy (subject_types' ''food_access'') then ''[[File:Yes.png|20px|Food Access]]''
        else ''[[File:No.png|20px|Not Food Access]]''),
      (''Has Limited Diplomacy'',
        if truthy (subject_types' ''has_limited_diplomacy'') then ''[[File:Yes.png|20px|Has Limited Diplomacy]]''
        else ''[[File:No.png|20px|Not Has Limited Diplomacy]]''),
      (''Has Overlords Ruler'',
        if truthy (subject_types' ''has_overlords_ruler'') then ''[[File:Yes.png|20px|Has Overlords Ruler]]''
        else ''[[File:No.png|20px|Not Has Overlords Ruler]]''),
      (''Is Colonial Subject'',
        if truthy (subject_types' ''is_colonial_subject'') then ''[[File:Yes.png|20px|Is Colonial Subject]]''
        else ''[[File:No.png|20px|Not Is Colonial Subject]]''),
      (''Only Overlord Court Language'',
        if truthy (subject_types' ''only_overlord_court_language'') then ''[[File:Yes.png|20px|Only Overlord Court Language]]''
        else ''[[File:No.png|20px|Not Only Overlord Court Language]]''),
      (''Only Overlord Culture'',
        if truthy (subject_types' ''only_overlord_culture'') then ''[[File:Yes.png|20px|Only Overlord Culture]]''
        else ''[[File:No.png|20px|Not Only Overlord Culture]]''),
      (''Only Overlord Or Kindred Culture'',
        if truthy (subject_types' ''only_overlord_or_kindred_culture'') then ''[[File:Yes.png|20px|Only Overlord Or Kindred Culture]]''
        else ''[[File:No.png|20px|Not Only Overlord Or Kindred Culture]]''),
      (''Overlord Can Cancel'',
        if truthy (subject_types' ''overlord_can_cancel'') then ''[[File:Yes.png|20px|Overlord Can Cancel]]''
        else ''[[File:No.png|20px|Not Overlord Can Cancel]]''),
      (''Overlord Can Enforce Peace On Subject'',
        if truthy (subject_types' ''overlord_can_enforce_peace_on_subject'') then ''[[File:Yes.png|20px|Overlord Can Enforce Peace On Subject]]''
        else ''[[File:No.png|20px|Not Overlord Can Enforce Peace On Subject]]''),
      (''Overlord Inherit If No Heir'',
        if truthy (subject_types' ''overlord_inherit_if_no_heir'') then ''[[File:Yes.png|20px|Overlord Inherit If No Heir]]''
        else ''[[File:No.png|20px|Not Overlord Inherit If No Heir]]''),
      (''Overlord Share Exploration'',
        if truthy (subject_types' ''overlord_share_exploration'') then ''[[File:Yes.png|20px|Overlord Share Exploration]]''
        else ''[[File:No.png|20px|Not Overlord Share Exploration]]''),
      (''Subject Can Cancel'',
        if subject_types' ''subject_can_cancel'' = None then []
        else if truthy (subject_types' ''subject_can_cancel'') then ''[[File:Yes.png|20px|Subject Can Cancel]]''
        else ''[[File:No.png|20px|Not Subject Can Cancel]]''),
      (''Use Overlord Laws'',
        if truthy (subject_types' ''use_overlord_laws'') then ''[[File:Yes.png|20px|Use Overlord Laws]]''
        else ''[[File:No.png|20px|Not Use Overlord Laws]]''),
      (''Use Overlord Map Color'',
        if subject_types' ''use_overlord_map_color'' = None then []
        else if truthy (subject_types' ''use_overlord_map_color'') then ''[[File:Yes.png|20px|Use Overlord Map Color]]''
        else ''[[File:No.png|20px|Not Use Overlord Map Color]]''),
      (''Use Overlord Map Name'',
        if truthy (subject_types' ''use_overlord_map_name'') then ''[[File:Yes.png|20px|Use Overlord Map Name]]''
        else ''[[File:No.png|20px|Not Use Overlord Map Name]]'')]"

text \<open>\<^verbatim>\<open>generate_unit_types_table\<close>, lines 1733 to 1770.\<close>

definition generate_unit_types_table_bool_cells :: "flags \<Rightarrow> (string \<times> string) list" where
  "generate_unit_types_table_bool_cells unit_types =
     [(''Buildable'',
        if unit_types ''buildable'' = None then []
        else if truthy (unit_types ''buildable'') then ''[[File:Yes.png|20px|Buildable]]''
        else ''[[File:No.png|20px|Not Buildable]]''),
      (''Default'',
        if truthy (unit_types ''default'') then ''[[File:Yes.png|20px|Default]]''
        else ''[[File:No.png|20px|Not Default]]''),
      (''Levy'',
        if truthy (unit_types ''levy'') then ''[[File:Yes.png|20px|Levy]]''
        else ''[[File:No.png|20px|Not Levy]]''),
      (''Use Ship Names'',
        if unit_types ''use_ship_names'' = None then []
        else if truthy (unit_types ''use_ship_names'') then ''[[File:Yes.png|20px|Use Ship Names]]''
        else ''[[File:No.png|20px|Not Use Ship Names]]'')]"

text \<open>\<^verbatim>\<open>generate_wargoals_table\<close>, line 1785.\<close>

definition generate_wargoals_table_bool_cells :: "flags \<Rightarrow> (string \<times> string) list" where
  "generate_wargoals_table_bool_cells wargoals =
     [(''War Name Is Country Order Agnostic'',
        if truthy (wargoals ''war_name_is_country_order_agnostic'') then ''[[File:Yes.png|20px|War Name Is Country Order Agnostic]]''
        else ''[[File:No.png|20px|Not War Name Is Country Order Agnostic]]'')]"

text \<open>
  \<^verbatim>\<open>get_goods_table\<close>, line 464: the Inflation column has no icon. The column label is
  \<^verbatim>\<open>rowspan="2" | Inflation\<close>.
\<close>

definition get_goods_table_inflation_cell :: "flags \<Rightarrow> string \<times> string" where
  "get_goods_table_inflation_cell good =
     (''rowspan='' @ [CHR 0x22] @ ''2'' @ [CHR 0x22] @ '' | Inflation'',
      if truthy (good ''inflation'') then ''yes'' else [])"

text \<open>
  \<^verbatim>\<open>generate_building_table_cargo\<close>, lines 255, 279 and 280: the boolean fields of the
  cargo data are numbers.
\<close>

definition generate_building_table_cargo_bool_fields :: "flags \<Rightarrow> (string \<times> int) list" where
  "generate_building_table_cargo_bool_fields building =
     [(''city'', if truthy (building ''city'') then 1 else 0),
      (''rural_settlement'', if truthy (building ''rural_settlement'') then 1 else 0),
      (''town'', if truthy (building ''town'') then 1 else 0)]"

text \<open>
  The two icon markups, with their alt label, and the two ways of rendering a boolean with
  them: behind a test for \<^verbatim>\<open>None\<close>, and by truthiness alone.
\<close>

definition yes_markup :: "string \<Rightarrow> string" where
  "yes_markup alt = ''[[File:Yes.png|20px|'' @ alt @ '']]''"

definition no_markup :: "string \<Rightarrow> string" where
  "no_markup alt = ''[[File:No.png|20px|'' @ alt @ '']]''"

definition tri_state_cell :: "string \<Rightarrow> bool option \<Rightarrow> string \<times> string" where
  "tri_state_cell label x =
     (label, case x of None \<Rightarrow> [] | Some True \<Rightarrow> yes_markup label
                   | Some False \<Rightarrow> no_markup (''Not '' @ label))"

definition two_state_cell :: "string \<Rightarrow> bool option \<Rightarrow> string \<times> string" where
  "two_state_cell label x =
     (label, if x = Some True then yes_markup label else no_markup (''Not '' @ label))"

section \<open>get\_concept\_section\<close>

text \<open>
  A game concept: its stable name, its \<^verbatim>\<open>str()\<close>, the display names of its aliases
  and its description. \<^verbatim>\<open>formatter.format_localization_text\<close> is outside this file and
  is a parameter.
\<close>

record game_concept =
  concept_name :: string
  concept_str :: string
  alias_display_names :: "string list"
  description :: string

type_synonym localizer = "string \<Rightarrow> string list \<Rightarrow> string"

definition get_concept_section_contents :: "localizer \<Rightarrow> string list \<Rightarrow> game_concept \<Rightarrow> string" where
  "get_concept_section_contents format_localization_text all_concept_names concept =
     format_localization_text (description concept) all_concept_names"

definition get_concept_section :: "localizer \<Rightarrow> string list \<Rightarrow> game_concept \<Rightarrow> string list" where
  "get_concept_section format_localization_text all_concept_names concept =
     (let result = [''=== '' @ concept_str concept @ '' ===''];
          result =
            (if alias_display_names concept \<noteq> [] then
               result @
               [''{{hatnote|Aliases: '' @
                join '', '' (map (\<lambda>a. format_localization_text a all_concept_names)
                                (alias_display_names concept)) @
                ''}}{{anchor|'' @ join ''}}{{anchor|'' (alias_display_names concept) @ ''}}'']
             else result);
          result =
            result @
            [''<section begin=autogenerated_concept_'' @ concept_name concept @ ''/>'' @
             get_concept_section_contents format_localization_text all_concept_names concept @
             ''<section end=autogenerated_concept_'' @ concept_name concept @ ''/>'']
      in result)"

text \<open>The two markers of a section key.\<close>

definition section_begin :: "string \<Rightarrow> string" where
  "section_begin key = ''<section begin='' @ key @ ''/>''"

definition section_end :: "string \<Rightarrow> string" where
  "section_end key = ''<section end='' @ key @ ''/>''"

section \<open>Attribute access and the wiki list\<close>

text \<open>\<^verbatim>\<open>getattr(e, a)\<close> without a default raises when the attribute is missing.\<close>

definition getattr :: "entity \<Rightarrow> string \<Rightarrow> error + val" where
  "getattr e a = (case e a of None \<Rightarrow> Inl AttributeError | Some v \<Rightarrow> Inr v)"

text \<open>
  Python's \<^verbatim>\<open>==\<close> on attribute values: \<^verbatim>\<open>True\<close> and \<^verbatim>\<open>False\<close> are the integers 1
  and 0, lists are compared element by element, values of different kinds are unequal.
\<close>

fun py_eq :: "val \<Rightarrow> val \<Rightarrow> bool" where
  "py_eq VNone VNone = True"
| "py_eq (VBool a) (VBool b) = (a = b)"
| "py_eq (VBool a) (VInt j) = ((if a then 1 else 0) = j)"
| "py_eq (VInt i) (VBool b) = (i = (if b then 1 else 0))"
| "py_eq (VInt i) (VInt j) = (i = j)"
| "py_eq (VStr s) (VStr t) = (s = t)"
| "py_eq (VList xs) (VList ys) = list_all2 py_eq xs ys"
| "py_eq (VLocation p) (VLocation q) = (p = q)"
| "py_eq (VModifier s) (VModifier t) = (s = t)"
| "py_eq (VObj s) (VObj t) = (s = t)"
| "py_eq _ _ = False"

definition py_ne :: "val \<Rightarrow> val \<Rightarrow> bool" where
  "py_ne a b = (\<not> py_eq a b)"

text \<open>
  Modelled from the spec: \<^verbatim>\<open>create_wiki_list\<close> is a method of the generator's base
  class, which is not among the sources. The spec has a list render as a bulleted list,
  and an empty list as the empty string (not an empty bullet).
\<close>

definition create_wiki_list :: "string list \<Rightarrow> string" where
  "create_wiki_list elements =
     (if elements = [] then [] else join nl (map (\<lambda>element. ''* '' @ element) elements))"

section \<open>format\_modifier\_section\<close>

text \<open>\<^verbatim>\<open>modifier.format_for_wiki()\<close>: only a modifier has the method.\<close>

fun format_for_wiki :: "val \<Rightarrow> error + string" where
  "format_for_wiki (VModifier s) = Inr s"
| "format_for_wiki _ = Inl AttributeError"

text \<open>The list comprehension over the modifiers; it stops at the first error.\<close>

fun format_all_for_wiki :: "val list \<Rightarrow> error + string list" where
  "format_all_for_wiki [] = Inr []"
| "format_all_for_wiki (modifier # rest) =
     (case format_for_wiki modifier of
        Inl e \<Rightarrow> Inl e
      | Inr s \<Rightarrow> (case format_all_for_wiki rest of Inl e \<Rightarrow> Inl e | Inr ss \<Rightarrow> Inr (s # ss)))"

text \<open>
  Iterating over the attribute value: a list gives its elements, a string its
  characters (one-character strings), anything else is not iterable.
\<close>

fun iterate :: "val \<Rightarrow> error + val list" where
  "iterate (VList xs) = Inr xs"
| "iterate (VStr s) = Inr (map (\<lambda>ch. VStr [ch]) s)"
| "iterate _ = Inl TypeError"

definition format_modifier_section :: "string \<Rightarrow> entity \<Rightarrow> error + string" where
  "format_modifier_section section entity =
     (if section \<in> dom entity then
        (case getattr entity section of
           Inl e \<Rightarrow> Inl e
         | Inr v \<Rightarrow>
             (case iterate v of
                Inl e \<Rightarrow> Inl e
              | Inr modifiers \<Rightarrow>
                  (case format_all_for_wiki modifiers of
                     Inl e \<Rightarrow> Inl e
                   | Inr formatted \<Rightarrow> Inr (create_wiki_list formatted))))
      else Inr [])"

section \<open>get\_building\_notes\<close>

text \<open>
  A building has its attributes and the dictionary \<^verbatim>\<open>default_values\<close>. The formatter
  methods and \<^verbatim>\<open>str()\<close> on an attribute value (inside the f-strings) are outside this
  file and are parameters; \<open>add_red_green\<close> stands for the call with
  \<^verbatim>\<open>positive_is_good=False, add_plus=True, add_percent=True\<close>.
\<close>

record building =
  battrs :: entity
  default_values :: entity

record formatter =
  add_red_green :: "val \<Rightarrow> string"
  format_effect :: "val \<Rightarrow> string"
  str_of :: "val \<Rightarrow> string"

text \<open>
  \<^verbatim>\<open>{"empty": "only", "any": "also", "owned": "not"}[building.in_empty]\<close>: a list is
  not hashable, any other value that is not one of the three keys is a missing key.
\<close>

fun in_empty_word :: "val \<Rightarrow> error + string" where
  "in_empty_word (VStr s) =
     (if s = ''empty'' then Inr ''only''
      else if s = ''any'' then Inr ''also''
      else if s = ''owned'' then Inr ''not''
      else Inl KeyError)"
| "in_empty_word (VList xs) = Inl TypeError"
| "in_empty_word _ = Inl KeyError"

text \<open>
  The dictionary \<^verbatim>\<open>messages_for_non_default_values\<close>, as the list of its items. Its
  values are computed when the dictionary is built, in the order of the display, so a
  missing attribute raises there.
\<close>

definition messages_for_non_default_values ::
    "formatter \<Rightarrow> building \<Rightarrow> error + (string \<times> string) list" where
  "messages_for_non_default_values F b =
     (case getattr (battrs b) ''conversion_religion'' of Inl e \<Rightarrow> Inl e | Inr conversion_religion \<Rightarrow>
      case getattr (battrs b) ''increase_per_level_cost'' of Inl e \<Rightarrow> Inl e | Inr increase_per_level_cost \<Rightarrow>
      case getattr (battrs b) ''in_empty'' of Inl e \<Rightarrow> Inl e | Inr in_empty \<Rightarrow>
      case in_empty_word in_empty of Inl e \<Rightarrow> Inl e | Inr word \<Rightarrow>
      case getattr (battrs b) ''pop_size_created'' of Inl e \<Rightarrow> Inl e | Inr pop_size_created \<Rightarrow>
      case getattr (battrs b) ''on_built'' of Inl e \<Rightarrow> Inl e | Inr on_built \<Rightarrow>
      case getattr (battrs b) ''on_destroyed'' of Inl e \<Rightarrow> Inl e | Inr on_destroyed \<Rightarrow>
      Inr
       [(''always_add_demands'', ''Demand does not scale with workers''),
        (''AI_ignore_available_worker_flag'', ''Build by AI even without available workers''),
        (''AI_optimization_flag_coastal'', []),
        (''allow_wrong_startup'', ''<tt>allow_wrong_startup</tt>''),
        (''can_close'', ''Cannot be closed''),
        (''conversion_religion'', ''Converts pops to '' @ str_of F conversion_religion),
        (''forbidden_for_estates'', ''Cannot be build by estates''),
        (''increase_per_level_cost'',
           ''Cost changes by '' @ add_red_green F increase_per_level_cost @ '' per level''),
        (''in_empty'', ''Can '' @ word @ '' be built in empty locations''),
        (''is_foreign'', ''Foreign building''),
        (''lifts_fog_of_war'', ''Lifts fog of war''),
        (''need_good_relation'', ''Needs good relations when building in foreign provinces''),
        (''pop_size_created'',
           ''Creates '' @ str_of F pop_size_created @
           '' pops when building(taken from the capital of the owner)''),
        (''stronger_power_projection'',
           ''Requires more power projection to construct in a foreign location''),
        (''on_built'', bold_quotes @ ''On Built:'' @ bold_quotes @ nl @ format_effect F on_built),
        (''on_destroyed'',
           bold_quotes @ ''On Destroyed:'' @ bold_quotes @ nl @ format_effect F on_destroyed)])"

text \<open>The loop over the items of the dictionary.\<close>

fun notes_loop :: "building \<Rightarrow> (string \<times> string) list \<Rightarrow> string list \<Rightarrow> error + string list" where
  "notes_loop b [] result = Inr result"
| "notes_loop b ((attribute, message) # rest) result =
     (case getattr (battrs b) attribute of
        Inl e \<Rightarrow> Inl e
      | Inr v \<Rightarrow>
          (case default_values b attribute of
             None \<Rightarrow> Inl KeyError
           | Some dflt \<Rightarrow>
               if py_ne v dflt then notes_loop b rest (result @ [message])
               else notes_loop b rest result))"

definition get_building_notes :: "formatter \<Rightarrow> building \<Rightarrow> error + string" where
  "get_building_notes F b =
     (case messages_for_non_default_values F b of
        Inl e \<Rightarrow> Inl e
      | Inr messages \<Rightarrow>
          (case notes_loop b messages [] of
             Inl e \<Rightarrow> Inl e
           | Inr result \<Rightarrow> Inr (create_wiki_list result)))"

text \<open>
  The attributes of the message table, in the order of their declaration, and what it
  takes for the function to return: every one of them is set, has a declared default, and
  \<open>in_empty\<close> is one of the three words of the game.
\<close>

definition note_attributes :: "string list" where
  "note_attributes =
     [''always_add_demands'', ''AI_ignore_available_worker_flag'',
      ''AI_optimization_flag_coastal'', ''allow_wrong_startup'', ''can_close'',
      ''conversion_religion'', ''forbidden_for_estates'', ''increase_per_level_cost'',
      ''in_empty'', ''is_foreign'', ''lifts_fog_of_war'', ''need_good_relation'',
      ''pop_size_created'', ''stronger_power_projection'', ''on_built'', ''on_destroyed'']"

definition complete_building :: "building \<Rightarrow> bool" where
  "complete_building b =
     (list_all (\<lambda>a. battrs b a \<noteq> None \<and> default_values b a \<noteq> None) note_attributes
      \<and> battrs b ''in_empty'' \<in> {Some (VStr ''empty''), Some (VStr ''any''), Some (VStr ''owned'')})"

text \<open>The live value of an attribute is unequal to its declared default.\<close>

definition differs :: "building \<Rightarrow> string \<Rightarrow> bool" where
  "differs b a =
     (case (battrs b a, default_values b a) of
        (Some v, Some dflt) \<Rightarrow> py_ne v dflt
      | _ \<Rightarrow> False)"

text \<open>
  Test data: a formatter, a table of defaults, and the two buildings of the spec's
  end-to-end scenario (one with all values at their defaults, one with
  \<open>pop_size_created = 5\<close>).
\<close>

definition sample_formatter :: formatter where
  "sample_formatter =
     \<lparr>add_red_green = (\<lambda>v. []), format_effect = (\<lambda>v. []),
      str_of = (\<lambda>v. case v of VInt i \<Rightarrow> str_int i | VStr s \<Rightarrow> s | _ \<Rightarrow> ''None'')\<rparr>"

definition sample_defaults :: entity where
  "sample_defaults =
     map_of
      [(''always_add_demands'', VBool False),
       (''AI_ignore_available_worker_flag'', VBool False),
       (''AI_optimization_flag_coastal'', VBool False),
       (''allow_wrong_startup'', VBool False),
       (''can_close'', VBool True),
       (''conversion_religion'', VNone),
       (''forbidden_for_estates'', VBool False),
       (''increase_per_level_cost'', VInt 0),
       (''in_empty'', VStr ''owned''),
       (''is_foreign'', VBool False),
       (''lifts_fog_of_war'', VBool False),
       (''need_good_relation'', VBool False),
       (''pop_size_created'', VInt 0),
       (''stronger_power_projection'', VBool False),
       (''on_built'', VNone),
       (''on_destroyed'', VNone)]"

definition default_building :: building where
  "default_building = \<lparr>battrs = sample_defaults, default_values = sample_defaults\<rparr>"

definition pops_building :: building where
  "pops_building =
     \<lparr>battrs = sample_defaults(''pop_size_created'' \<mapsto> VInt 5), default_values = sample_defaults\<rparr>"

section \<open>get\_country\_notes\<close>

text \<open>
  The case mapping methods of Python's strings, \<^verbatim>\<open>lower()\<close>, \<^verbatim>\<open>capitalize()\<close> and
  \<^verbatim>\<open>title()\<close>, follow the Unicode tables of the interpreter; they are outside this
  file and are parameters. \<^verbatim>\<open>replace('_', ' ')\<close> is defined here.
\<close>

record str_methods =
  str_lower :: "string \<Rightarrow> string"
  str_capitalize :: "string \<Rightarrow> string"
  str_title :: "string \<Rightarrow> string"

definition replace_underscores :: "string \<Rightarrow> string" where
  "replace_underscores s = map (\<lambda>c. if c = CHR ''_'' then CHR '' '' else c) s"

text \<open>
  The parser's tables, as far as \<^verbatim>\<open>get_country_notes\<close> reads them. An entity of a
  table is represented by the string the function takes from it:
  \<^verbatim>\<open>country_name\<close> for a formable country, \<^verbatim>\<open>get_wiki_link_with_icon()\<close> for a
  subject type, a country and an international organization, \<^verbatim>\<open>display_name\<close> for a
  law and a law policy. \<^verbatim>\<open>diplomacy_relationships\<close> is a dictionary of tables, which
  the parser may not have at all; a table that the dictionary lacks is \<open>None\<close>.
\<close>

record diplomacy =
  diplo_overlords :: "(string \<rightharpoonup> string) option"
  diplo_subject_types :: "(string \<rightharpoonup> string) option"
  diplo_io_members :: "(string \<rightharpoonup> string list) option"
  diplo_io_member_laws :: "(string \<rightharpoonup> (string \<rightharpoonup> string list)) option"

record parser =
  formable_countries :: "string list"
  diplomacy_relationships :: "diplomacy option"
  subject_types :: "string \<rightharpoonup> string"
  countries :: "string \<rightharpoonup> string"
  international_organizations :: "string \<rightharpoonup> string"
  law_policies :: "string \<rightharpoonup> string"
  laws :: "string \<rightharpoonup> string"

text \<open>\<^verbatim>\<open>len(v)\<close>\<close>

fun py_len :: "val \<Rightarrow> error + nat" where
  "py_len (VList xs) = Inr (length xs)"
| "py_len (VStr s) = Inr (length s)"
| "py_len _ = Inl TypeError"

text \<open>\<^verbatim>\<open>hasattr(country, a) and len(country.a) > 0\<close>\<close>

definition has_nonempty :: "country \<Rightarrow> string \<Rightarrow> error + bool" where
  "has_nonempty c a =
     (case attrs c a of
        None \<Rightarrow> Inr False
      | Some v \<Rightarrow> (case py_len v of Inl e \<Rightarrow> Inl e | Inr n \<Rightarrow> Inr (n > 0)))"

text \<open>
  The chain of \<^verbatim>\<open>or\<close> that computes \<^verbatim>\<open>has_owned_cores\<close>, over the attributes in the
  order of the source; it stops at the first true operand.
\<close>

definition owned_core_attributes :: "string list" where
  "owned_core_attributes =
     [''own_control_core'', ''own_core'', ''own_conquered'', ''own_control_conquered'',
      ''own_control_integrated'', ''own_control_colony'', ''control'']"

fun any_nonempty :: "country \<Rightarrow> string list \<Rightarrow> error + bool" where
  "any_nonempty c [] = Inr False"
| "any_nonempty c (a # rest) =
     (case has_nonempty c a of
        Inl e \<Rightarrow> Inl e
      | Inr True \<Rightarrow> Inr True
      | Inr False \<Rightarrow> any_nonempty c rest)"

definition existence_note :: string where
  "existence_note = ''Does not exist in 1337''"

definition formable_note :: string where
  "formable_note =
     ''[[File:Country rank.png|24px|link=Formable countries]] [[Formable countries|Formable Country]]''"

text \<open>The subject note of a country that has an overlord.\<close>

definition subject_note :: "str_methods \<Rightarrow> parser \<Rightarrow> (string \<rightharpoonup> string) \<Rightarrow> string \<Rightarrow> string \<Rightarrow> string" where
  "subject_note S P rel_subject_types cname overlord_tag =
     (let subject_type = (case rel_subject_types cname of None \<Rightarrow> ''subject'' | Some t \<Rightarrow> t);
          subject_display =
            (case subject_types P subject_type of
               Some st \<Rightarrow> st
             | None \<Rightarrow> str_capitalize S subject_type);
          overlord_flag =
            (case countries P overlord_tag of
               Some overlord_country \<Rightarrow> overlord_country
             | None \<Rightarrow> ''{{flag|'' @ overlord_tag @ ''}}'')
      in subject_display @ '' of '' @ overlord_flag)"

text \<open>
  The display of the Hindu branch of a member:
  \<^verbatim>\<open>io_member_laws.get(country.name, {}).get(io_name, [])\<close>, then the first key.
\<close>

definition branch_display_of ::
    "str_methods \<Rightarrow> parser \<Rightarrow> (string \<rightharpoonup> (string \<rightharpoonup> string list)) \<Rightarrow> string \<Rightarrow> string \<Rightarrow> string option" where
  "branch_display_of S P io_member_laws cname io_name =
     (let branch_laws =
            (case io_member_laws cname of
               None \<Rightarrow> []
             | Some of_member \<Rightarrow> (case of_member io_name of None \<Rightarrow> [] | Some ls \<Rightarrow> ls))
      in case branch_laws of
           [] \<Rightarrow> None
         | branch_key # _ \<Rightarrow>
             Some (case law_policies P branch_key of
                     Some display \<Rightarrow> display
                   | None \<Rightarrow>
                       (case laws P branch_key of
                          Some display \<Rightarrow> display
                        | None \<Rightarrow> str_title S (replace_underscores branch_key))))"

text \<open>One round of the loop over the organizations of the country.\<close>

definition io_step ::
    "str_methods \<Rightarrow> parser \<Rightarrow> (string \<rightharpoonup> (string \<rightharpoonup> string list)) \<Rightarrow> string \<Rightarrow> string \<Rightarrow> string list \<Rightarrow> string list" where
  "io_step S P io_member_laws cname io_name notes =
     (if str_lower S io_name \<notin> set [''catholic_church'', ''papacy''] then
        (case international_organizations P io_name of
           Some io_obj \<Rightarrow>
             (let branch_display =
                    (if str_lower S io_name = ''hindu_branch''
                     then branch_display_of S P io_member_laws cname io_name
                     else None)
              in case branch_display of
                   Some display \<Rightarrow>
                     if display \<noteq> [] then
                       notes @
                       [''Member of [[File:IO '' @ str_lower S display @
                        ''.png|24px]] [[International organization#Hindu Branches|'' @
                        display @ '']]'']
                     else notes @ [''Member of '' @ io_obj]
                 | None \<Rightarrow> notes @ [''Member of '' @ io_obj])
         | None \<Rightarrow> notes @ [''Member of {{iconify|'' @ io_name @ ''}}''])
      else notes)"

fun io_loop ::
    "str_methods \<Rightarrow> parser \<Rightarrow> (string \<rightharpoonup> (string \<rightharpoonup> string list)) \<Rightarrow> string \<Rightarrow> string list \<Rightarrow> string list \<Rightarrow> string list" where
  "io_loop S P io_member_laws cname [] notes = notes"
| "io_loop S P io_member_laws cname (io_name # rest) notes =
     io_loop S P io_member_laws cname rest (io_step S P io_member_laws cname io_name notes)"

text \<open>
  The block under \<^verbatim>\<open>hasattr(self.parser, 'diplomacy_relationships')\<close>. Indexing the
  dictionary with a key it lacks raises; \<^verbatim>\<open>io_member_laws\<close> is read with a default.
\<close>

definition diplomacy_notes :: "str_methods \<Rightarrow> parser \<Rightarrow> diplomacy \<Rightarrow> country \<Rightarrow> string list \<Rightarrow> error + string list" where
  "diplomacy_notes S P diplo_rels c notes =
     (let io_member_laws =
            (case diplo_io_member_laws diplo_rels of None \<Rightarrow> Map.empty | Some t \<Rightarrow> t)
      in case diplo_overlords diplo_rels of
           None \<Rightarrow> Inl KeyError
         | Some overlords \<Rightarrow>
             (case (case overlords (name c) of
                      None \<Rightarrow> Inr notes
                    | Some overlord_tag \<Rightarrow>
                        (case diplo_subject_types diplo_rels of
                           None \<Rightarrow> Inl KeyError
                         | Some rel_subject_types \<Rightarrow>
                             Inr (notes @ [subject_note S P rel_subject_types (name c) overlord_tag])))
              of
                Inl e \<Rightarrow> Inl e
              | Inr notes \<Rightarrow>
                  (case diplo_io_members diplo_rels of
                     None \<Rightarrow> Inl KeyError
                   | Some io_members \<Rightarrow>
                       (case io_members (name c) of
                          None \<Rightarrow> Inr notes
                        | Some io_names \<Rightarrow>
                            Inr (io_loop S P io_member_laws (name c) io_names notes)))))"

definition get_country_notes :: "str_methods \<Rightarrow> parser \<Rightarrow> country \<Rightarrow> error + (string list \<times> string list option)" where
  "get_country_notes S P c =
     (let notes = [];
          nested_details = None;
          is_formable = (\<exists>fc \<in> set (formable_countries P). fc = name c)
      in case has_nonempty c ''our_cores_conquered_by_others'' of
           Inl e \<Rightarrow> Inl e
         | Inr has_conquered_cores \<Rightarrow>
             (case any_nonempty c owned_core_attributes of
                Inl e \<Rightarrow> Inl e
              | Inr has_owned_cores \<Rightarrow>
                  (let notes = (if has_conquered_cores \<and> \<not> has_owned_cores
                                then notes @ [existence_note] else notes)
                   in case (case diplomacy_relationships P of
                              None \<Rightarrow> Inr notes
                            | Some diplo_rels \<Rightarrow> diplomacy_notes S P diplo_rels c notes)
                      of
                        Inl e \<Rightarrow> Inl e
                      | Inr notes \<Rightarrow>
                          (let notes = (if is_formable then notes @ [formable_note] else notes)
                           in Inr (notes, nested_details)))))"

text \<open>
  The words of the claims about \<open>get_country_notes\<close>. An attribute exists and is
  non-empty; the country has lost cores and owns nothing; the four parts of the notes.
\<close>

definition nonempty :: "country \<Rightarrow> string \<Rightarrow> bool" where
  "nonempty c a =
     (case attrs c a of
        Some (VList xs) \<Rightarrow> xs \<noteq> []
      | Some (VStr s) \<Rightarrow> s \<noteq> []
      | _ \<Rightarrow> False)"

definition does_not_exist :: "country \<Rightarrow> bool" where
  "does_not_exist c =
     (nonempty c ''our_cores_conquered_by_others''
      \<and> \<not> (nonempty c ''own_control_core'' \<or> nonempty c ''own_core''
             \<or> nonempty c ''own_conquered'' \<or> nonempty c ''own_control_conquered''
             \<or> nonempty c ''own_control_integrated'' \<or> nonempty c ''own_control_colony''
             \<or> nonempty c ''control''))"

text \<open>\<^verbatim>\<open>len\<close> is defined on the value of the attribute, if the country has it.\<close>

definition sized :: "country \<Rightarrow> string \<Rightarrow> bool" where
  "sized c a =
     (case attrs c a of
        None \<Rightarrow> True
      | Some (VList xs) \<Rightarrow> True
      | Some (VStr s) \<Rightarrow> True
      | _ \<Rightarrow> False)"

text \<open>
  The inputs on which \<open>get_country_notes\<close> returns: the ownership attributes that the
  country has are lists, and the dictionary of relationships, if the parser has it, has
  its three tables.
\<close>

definition readable :: "parser \<Rightarrow> country \<Rightarrow> bool" where
  "readable P c =
     (list_all (sized c) (''our_cores_conquered_by_others'' # owned_core_attributes)
      \<and> (case diplomacy_relationships P of
            None \<Rightarrow> True
          | Some d \<Rightarrow>
              diplo_overlords d \<noteq> None \<and> diplo_subject_types d \<noteq> None
              \<and> diplo_io_members d \<noteq> None))"

definition member_laws :: "diplomacy \<Rightarrow> (string \<rightharpoonup> (string \<rightharpoonup> string list))" where
  "member_laws d = (case diplo_io_member_laws d of None \<Rightarrow> Map.empty | Some t \<Rightarrow> t)"

text \<open>The notes that one organization of the list contributes.\<close>

definition member_notes ::
    "str_methods \<Rightarrow> parser \<Rightarrow> (string \<rightharpoonup> (string \<rightharpoonup> string list)) \<Rightarrow> string \<Rightarrow> string \<Rightarrow> string list" where
  "member_notes S P io_member_laws cname io_name = io_step S P io_member_laws cname io_name []"

definition existence_part :: "country \<Rightarrow> string list" where
  "existence_part c = (if does_not_exist c then [existence_note] else [])"

definition subject_part :: "str_methods \<Rightarrow> parser \<Rightarrow> country \<Rightarrow> string list" where
  "subject_part S P c =
     (case diplomacy_relationships P of
        None \<Rightarrow> []
      | Some d \<Rightarrow>
          (case diplo_overlords d of
             None \<Rightarrow> []
           | Some overlords \<Rightarrow>
               (case overlords (name c) of
                  None \<Rightarrow> []
                | Some overlord_tag \<Rightarrow>
                    (case diplo_subject_types d of
                       None \<Rightarrow> []
                     | Some rel \<Rightarrow> [subject_note S P rel (name c) overlord_tag]))))"

definition membership_part :: "str_methods \<Rightarrow> parser \<Rightarrow> country \<Rightarrow> string list" where
  "membership_part S P c =
     (case diplomacy_relationships P of
        None \<Rightarrow> []
      | Some d \<Rightarrow>
          (case diplo_io_members d of
             None \<Rightarrow> []
           | Some io_members \<Rightarrow>
               (case io_members (name c) of
                  None \<Rightarrow> []
                | Some io_names \<Rightarrow>
                    concat (map (member_notes S P (member_laws d) (name c)) io_names))))"

definition formable_part :: "parser \<Rightarrow> country \<Rightarrow> string list" where
  "formable_part P c = (if name c \<in> set (formable_countries P) then [formable_note] else [])"

text \<open>
  Test data: case mapping on the ASCII letters, where it agrees with Python's methods on
  ASCII strings; other characters are left as they are.
\<close>

definition is_upper :: "char \<Rightarrow> bool" where
  "is_upper c = (65 \<le> (of_char c :: nat) \<and> (of_char c :: nat) \<le> 90)"

definition is_lower :: "char \<Rightarrow> bool" where
  "is_lower c = (97 \<le> (of_char c :: nat) \<and> (of_char c :: nat) \<le> 122)"

definition char_lower :: "char \<Rightarrow> char" where
  "char_lower c = (if is_upper c then char_of ((of_char c :: nat) + 32) else c)"

definition char_upper :: "char \<Rightarrow> char" where
  "char_upper c = (if is_lower c then char_of ((of_char c :: nat) - 32) else c)"

definition ascii_lower :: "string \<Rightarrow> string" where
  "ascii_lower s = map char_lower s"

definition ascii_capitalize :: "string \<Rightarrow> string" where
  "ascii_capitalize s = (case s of [] \<Rightarrow> [] | c # cs \<Rightarrow> char_upper c # map char_lower cs)"

fun title_from :: "bool \<Rightarrow> string \<Rightarrow> string" where
  "title_from previous_is_cased [] = []"
| "title_from previous_is_cased (c # cs) =
     (if is_lower c then (if previous_is_cased then c else char_upper c) # title_from True cs
      else if is_upper c then (if previous_is_cased then char_lower c else c) # title_from True cs
      else c # title_from False cs)"

definition ascii_title :: "string \<Rightarrow> string" where
  "ascii_title s = title_from False s"

definition ascii_methods :: str_methods where
  "ascii_methods =
     \<lparr>str_lower = ascii_lower, str_capitalize = ascii_capitalize, str_title = ascii_title\<rparr>"

text \<open>
  Test data for \<open>get_country_notes\<close>: a country that has lost its cores, is a
  tributary, belongs to four organizations and can be formed.
\<close>

definition sample_diplomacy :: diplomacy where
  "sample_diplomacy =
     \<lparr>diplo_overlords = Some [''VIJ'' \<mapsto> ''DEL''],
      diplo_subject_types = Some [''VIJ'' \<mapsto> ''tributary''],
      diplo_io_members =
        Some [''VIJ'' \<mapsto> [''catholic_church'', ''hindu_branch'', ''hre'', ''unknown_league'']],
      diplo_io_member_laws = Some [''VIJ'' \<mapsto> [''hindu_branch'' \<mapsto> [''shaivism_branch'']]]\<rparr>"

definition sample_parser :: parser where
  "sample_parser =
     \<lparr>formable_countries = [''VIJ''],
      diplomacy_relationships = Some sample_diplomacy,
      subject_types = Map.empty,
      countries = Map.empty,
      international_organizations =
        [''hindu_branch'' \<mapsto> ''[[Hindu Branch]]'', ''hre'' \<mapsto> ''[[HRE]]''],
      law_policies = Map.empty,
      laws = Map.empty\<rparr>"

definition sample_country :: country where
  "sample_country =
     \<lparr>name = ''VIJ'',
      attrs = [''our_cores_conquered_by_others'' \<mapsto> VList [VLocation (Some ''hampi'')],
               ''control'' \<mapsto> VList []]\<rparr>"

definition sample_notes :: "string list" where
  "sample_notes =
     [''Does not exist in 1337'',
      ''Tributary of {{flag|DEL}}'',
      ''Member of [[File:IO shaivism branch.png|24px]] [[International organization#Hindu Branches|Shaivism Branch]]'',
      ''Member of [[HRE]]'',
      ''Member of {{iconify|unknown_league}}'',
      ''[[File:Country rank.png|24px|link=Formable countries]] [[Formable countries|Formable Country]]'']"

section \<open>Helper lemmas\<close>

lemma all_dropWhile_iff: "(\<forall>x \<in> set (dropWhile P xs). P x) \<longleftrightarrow> (\<forall>x \<in> set xs. P x)"
  by (induction xs) auto

lemma strip_empty_iff: "strip s = [] \<longleftrightarrow> blank s"
  by (simp add: strip_def blank_def dropWhile_eq_Nil_conv all_dropWhile_iff)

lemma blank_Nil [simp]: "blank []"
  by (simp add: blank_def)

lemma join_eq_Nil_iff: "join sep xs = [] \<longleftrightarrow> xs = [] \<or> (sep = [] \<or> length xs = 1) \<and> (\<forall>x \<in> set xs. x = [])"
  by (induction sep xs rule: join.induct) auto

lemma merge_loop_acc:
  "merge_loop kvs acc = acc @ map render_pair (filter (\<lambda>hc. \<not> blank (snd hc)) kvs)"
proof (induction kvs arbitrary: acc)
  case Nil
  show ?case by simp
next
  case (Cons kv kvs)
  obtain h c where kv: "kv = (h, c)" by (cases kv)
  show ?case
    by (simp add: kv Cons.IH strip_empty_iff render_pair_def Let_def)
qed

lemma render_pair_nonempty: "\<not> blank (snd hc) \<Longrightarrow> render_pair hc \<noteq> []"
  by (auto simp: render_pair_def)

lemma province_of_Some_iff: "province_of loc = Some p \<longleftrightarrow> loc = VLocation (Some p)"
  by (cases loc) auto

lemma add_provinces_eq:
  "add_provinces locs acc = acc \<union> {p. VLocation (Some p) \<in> set locs}"
proof (induction locs arbitrary: acc)
  case Nil
  show ?case by simp
next
  case (Cons loc locs)
  show ?case
  proof (cases "province_of loc")
    case None
    then have "\<And>p. loc \<noteq> VLocation (Some p)"
      using province_of_Some_iff by fastforce
    with None show ?thesis by (auto simp: Cons.IH)
  next
    case (Some q)
    then have "loc = VLocation (Some q)" by (simp add: province_of_Some_iff)
    with Some show ?thesis by (auto simp: Cons.IH)
  qed
qed

lemma collect_provinces_eq:
  "collect_provinces as c acc =
     acc \<union> (\<Union>a \<in> set as. case attrs c a of None \<Rightarrow> {} | Some v \<Rightarrow> provinces_in v)"
proof (induction as arbitrary: acc)
  case Nil
  show ?case by simp
next
  case (Cons a as)
  show ?case
    by (cases "attrs c a")
       (auto simp: Cons.IH add_provinces_eq provinces_in_def split: val.splits)
qed

lemma join_nonempty_eq_Nil_iff:
  "\<forall>x \<in> set xs. x \<noteq> [] \<Longrightarrow> join sep xs = [] \<longleftrightarrow> xs = []"
  by (cases xs) (auto simp: join_eq_Nil_iff)

lemma time_component_nonempty: "time_component nu \<noteq> []"
  by (simp add: time_component_def)

lemma format_time_to_implement_eq:
  "format_time_to_implement policy k =
     (case normalize_time policy of (y, m, w, d) \<Rightarrow>
        if y = k \<and> m = 0 \<and> w = 0 \<and> d = 0 then []
        else join nl (map time_component (shown_components (y, m, w, d))))"
  by (auto simp: format_time_to_implement_def shown_components_def time_component_def
      split: prod.splits)

lemma shown_components_Nil_iff:
  "shown_components (y, m, w, d) = [] \<longleftrightarrow> y \<le> 0 \<and> m \<le> 0 \<and> w \<le> 0 \<and> d \<le> 0"
  by (auto simp: shown_components_def)

lemma normalize_time_nonneg:
  assumes "0 \<le> days policy" "0 \<le> weeks policy" "0 \<le> months policy"
  shows "normalize_time policy =
           (years policy + days policy div 365 + weeks policy div 52 + months policy div 12,
            months policy mod 12, weeks policy mod 52, days policy mod 365)"
  using assms by (simp add: normalize_time_def Let_def)

lemma messages_attributes:
  "messages_for_non_default_values F b = Inr msgs \<Longrightarrow> map fst msgs = note_attributes"
  unfolding messages_for_non_default_values_def note_attributes_def
  by (auto split: sum.splits)

lemma in_empty_word_legal:
  "v \<in> {VStr ''empty'', VStr ''any'', VStr ''owned''} \<Longrightarrow> \<exists>w. in_empty_word v = Inr w"
  by auto

lemma messages_complete:
  assumes "complete_building b"
  shows "\<exists>msgs. messages_for_non_default_values F b = Inr msgs"
proof -
  have present: "\<And>a. a \<in> set note_attributes \<Longrightarrow> \<exists>v. getattr (battrs b) a = Inr v"
    using assms by (auto simp: complete_building_def list_all_iff getattr_def)
  obtain v1 where v1: "getattr (battrs b) ''conversion_religion'' = Inr v1"
    using present [of "''conversion_religion''"] by (auto simp: note_attributes_def)
  obtain v2 where v2: "getattr (battrs b) ''increase_per_level_cost'' = Inr v2"
    using present [of "''increase_per_level_cost''"] by (auto simp: note_attributes_def)
  obtain v3 where v3: "getattr (battrs b) ''in_empty'' = Inr v3"
    using present [of "''in_empty''"] by (auto simp: note_attributes_def)
  have "v3 \<in> {VStr ''empty'', VStr ''any'', VStr ''owned''}"
    using assms v3 by (auto simp: complete_building_def getattr_def split: option.splits)
  then obtain w where w: "in_empty_word v3 = Inr w"
    using in_empty_word_legal by blast
  obtain v4 where v4: "getattr (battrs b) ''pop_size_created'' = Inr v4"
    using present [of "''pop_size_created''"] by (auto simp: note_attributes_def)
  obtain v5 where v5: "getattr (battrs b) ''on_built'' = Inr v5"
    using present [of "''on_built''"] by (auto simp: note_attributes_def)
  obtain v6 where v6: "getattr (battrs b) ''on_destroyed'' = Inr v6"
    using present [of "''on_destroyed''"] by (auto simp: note_attributes_def)
  show ?thesis
    by (simp add: messages_for_non_default_values_def v1 v2 v3 w v4 v5 v6)
qed

lemma notes_loop_complete:
  assumes "\<forall>a \<in> fst ` set msgs. battrs b a \<noteq> None \<and> default_values b a \<noteq> None"
  shows "notes_loop b msgs acc = Inr (acc @ map snd (filter (\<lambda>am. differs b (fst am)) msgs))"
  using assms
proof (induction msgs arbitrary: acc)
  case Nil
  show ?case by simp
next
  case (Cons am msgs)
  obtain a m where am: "am = (a, m)" by (cases am)
  from Cons.prems obtain v d where vd: "battrs b a = Some v" "default_values b a = Some d"
    by (auto simp: am)
  have rest: "\<forall>a \<in> fst ` set msgs. battrs b a \<noteq> None \<and> default_values b a \<noteq> None"
    using Cons.prems by simp
  show ?case
    by (simp add: am vd getattr_def differs_def Cons.IH [OF rest])
qed

lemma notes_loop_missing:
  assumes "a \<in> fst ` set msgs" "battrs b a = None"
  shows "\<exists>e. notes_loop b msgs acc = Inl e"
  using assms
proof (induction msgs arbitrary: acc)
  case Nil
  then show ?case by simp
next
  case (Cons am msgs)
  obtain a' m where am: "am = (a', m)" by (cases am)
  show ?case
  proof (cases "a' = a")
    case True
    then show ?thesis using Cons.prems by (simp add: am getattr_def)
  next
    case False
    then have "a \<in> fst ` set msgs" using Cons.prems by (auto simp: am)
    then have "\<And>acc. \<exists>e. notes_loop b msgs acc = Inl e"
      using Cons.IH Cons.prems(2) by blast
    then show ?thesis
      by (auto simp: am split: sum.splits option.splits)
  qed
qed

lemma sample_defaults_simps:
  "sample_defaults ''always_add_demands'' = Some (VBool False)"
  "sample_defaults ''AI_ignore_available_worker_flag'' = Some (VBool False)"
  "sample_defaults ''AI_optimization_flag_coastal'' = Some (VBool False)"
  "sample_defaults ''allow_wrong_startup'' = Some (VBool False)"
  "sample_defaults ''can_close'' = Some (VBool True)"
  "sample_defaults ''conversion_religion'' = Some VNone"
  "sample_defaults ''forbidden_for_estates'' = Some (VBool False)"
  "sample_defaults ''increase_per_level_cost'' = Some (VInt 0)"
  "sample_defaults ''in_empty'' = Some (VStr ''owned'')"
  "sample_defaults ''is_foreign'' = Some (VBool False)"
  "sample_defaults ''lifts_fog_of_war'' = Some (VBool False)"
  "sample_defaults ''need_good_relation'' = Some (VBool False)"
  "sample_defaults ''pop_size_created'' = Some (VInt 0)"
  "sample_defaults ''stronger_power_projection'' = Some (VBool False)"
  "sample_defaults ''on_built'' = Some VNone"
  "sample_defaults ''on_destroyed'' = Some VNone"
  by (simp_all add: sample_defaults_def)

lemma has_nonempty_Inr: "has_nonempty c a = Inr b \<Longrightarrow> b = nonempty c a"
  by (cases "attrs c a"; cases "the (attrs c a)")
     (auto simp: has_nonempty_def nonempty_def)

lemma has_nonempty_sized: "sized c a \<Longrightarrow> has_nonempty c a = Inr (nonempty c a)"
  by (cases "attrs c a"; cases "the (attrs c a)")
     (auto simp: has_nonempty_def nonempty_def sized_def)

lemma any_nonempty_Inr:
  "any_nonempty c as = Inr b \<Longrightarrow> b = (\<exists>a \<in> set as. nonempty c a)"
proof (induction as)
  case Nil
  then show ?case by simp
next
  case (Cons a as)
  show ?case
  proof (cases "has_nonempty c a")
    case (Inl e)
    with Cons.prems show ?thesis by simp
  next
    case (Inr h)
    then have h: "h = nonempty c a" by (rule has_nonempty_Inr)
    show ?thesis
      using Cons Inr h by (cases h) auto
  qed
qed

lemma any_nonempty_sized:
  "list_all (sized c) as \<Longrightarrow> \<exists>b. any_nonempty c as = Inr b"
proof (induction as)
  case Nil
  show ?case by (rule exI [of _ False]) simp
next
  case (Cons a as)
  then have "has_nonempty c a = Inr (nonempty c a)"
    by (simp add: has_nonempty_sized)
  then show ?case
    using Cons by (cases "nonempty c a") auto
qed

lemma owned_nonempty_iff:
  "(\<exists>a \<in> set owned_core_attributes. nonempty c a) \<longleftrightarrow>
     (nonempty c ''own_control_core'' \<or> nonempty c ''own_core''
      \<or> nonempty c ''own_conquered'' \<or> nonempty c ''own_control_conquered''
      \<or> nonempty c ''own_control_integrated'' \<or> nonempty c ''own_control_colony''
      \<or> nonempty c ''control'')"
  by (simp add: owned_core_attributes_def)

lemma io_step_append:
  "io_step S P L cn io notes = notes @ member_notes S P L cn io"
  by (simp add: io_step_def member_notes_def Let_def split: option.splits)

lemma io_loop_append:
  "io_loop S P L cn ios acc = acc @ concat (map (member_notes S P L cn) ios)"
proof (induction ios arbitrary: acc)
  case Nil
  show ?case by simp
next
  case (Cons io ios)
  show ?case
    by (simp add: Cons.IH io_step_append [of S P L cn io acc])
qed

lemma diplomacy_notes_parts:
  assumes "diplomacy_notes S P d c notes = Inr notes'" "diplomacy_relationships P = Some d"
  shows "notes' = notes @ subject_part S P c @ membership_part S P c"
  using assms
  by (auto simp: diplomacy_notes_def subject_part_def membership_part_def member_laws_def
      io_loop_append Let_def split: option.splits sum.splits)

lemma get_country_notes_parts:
  assumes "get_country_notes S P c = Inr (notes, nd)"
  shows "notes = existence_part c @ subject_part S P c @ membership_part S P c @ formable_part P c
         \<and> nd = None"
proof -
  obtain h1 where h1: "has_nonempty c ''our_cores_conquered_by_others'' = Inr h1"
    using assms by (auto simp: get_country_notes_def split: sum.splits)
  obtain h2 where h2: "any_nonempty c owned_core_attributes = Inr h2"
    using assms h1 by (auto simp: get_country_notes_def split: sum.splits)
  have e: "(if h1 \<and> \<not> h2 then [existence_note] else []) = existence_part c"
    using has_nonempty_Inr [OF h1] any_nonempty_Inr [OF h2]
    by (simp add: existence_part_def does_not_exist_def owned_nonempty_iff)
  have f: "(\<exists>fc \<in> set (formable_countries P). fc = name c) \<longleftrightarrow>
      name c \<in> set (formable_countries P)"
    by auto
  show ?thesis
  proof (cases "diplomacy_relationships P")
    case None
    then have "subject_part S P c = []" "membership_part S P c = []"
      by (simp_all add: subject_part_def membership_part_def)
    then show ?thesis
      using assms h1 h2 e None
      by (auto simp: get_country_notes_def formable_part_def f)
  next
    case (Some d)
    from assms h1 h2 Some obtain mid where
      mid: "diplomacy_notes S P d c (if h1 \<and> \<not> h2 then [existence_note] else []) = Inr mid"
      by (auto simp: get_country_notes_def split: sum.splits if_splits)
    have "mid = existence_part c @ subject_part S P c @ membership_part S P c"
      using diplomacy_notes_parts [OF mid Some] e by simp
    then show ?thesis
      using assms h1 h2 Some mid
      by (auto simp: get_country_notes_def formable_part_def f split: if_splits)
  qed
qed

lemma get_country_notes_returns:
  assumes "readable P c"
  shows "\<exists>notes. get_country_notes S P c = Inr (notes, None)"
proof -
  have s: "sized c ''our_cores_conquered_by_others''" "list_all (sized c) owned_core_attributes"
    using assms by (simp_all add: readable_def)
  have h1: "has_nonempty c ''our_cores_conquered_by_others'' =
      Inr (nonempty c ''our_cores_conquered_by_others'')"
    using s(1) by (rule has_nonempty_sized)
  obtain h2 where h2: "any_nonempty c owned_core_attributes = Inr h2"
    using any_nonempty_sized [OF s(2)] by blast
  have d: "\<exists>out. diplomacy_notes S P d c acc = Inr out"
    if "diplomacy_relationships P = Some d" for d acc
    using assms that
    by (auto simp: readable_def diplomacy_notes_def Let_def split: option.splits)
  show ?thesis
  proof (cases "diplomacy_relationships P")
    case None
    then show ?thesis
      by (simp add: get_country_notes_def h1 h2 Let_def)
  next
    case (Some dr)
    obtain out1 where out1: "diplomacy_notes S P dr c [existence_note] = Inr out1"
      using d [OF Some] by blast
    obtain out2 where out2: "diplomacy_notes S P dr c [] = Inr out2"
      using d [OF Some] by blast
    show ?thesis
      using Some by (simp add: get_country_notes_def h1 h2 out1 out2 Let_def)
  qed
qed

lemma subject_note_has_f: "CHR ''f'' \<in> set (subject_note S P rel cn tag)"
  by (simp add: subject_note_def Let_def)

lemma member_notes_prefix:
  "n \<in> set (member_notes S P L cn io) \<Longrightarrow> \<exists>r. n = ''Member of '' @ r"
  by (auto simp: member_notes_def io_step_def Let_def split: if_splits option.splits)

lemma existence_note_not_later:
  "existence_note \<notin> set (subject_part S P c @ membership_part S P c @ formable_part P c)"
proof -
  have "CHR ''f'' \<notin> set existence_note"
    by (simp add: existence_note_def)
  then have "existence_note \<noteq> subject_note S P rel cn tag" for rel cn tag
    using subject_note_has_f [of S P rel cn tag] by metis
  then have a: "existence_note \<notin> set (subject_part S P c)"
    by (auto simp: subject_part_def split: option.splits)
  have "\<And>r. existence_note \<noteq> ''Member of '' @ r"
    by (simp add: existence_note_def)
  then have b: "existence_note \<notin> set (membership_part S P c)"
    using member_notes_prefix
    by (fastforce simp: membership_part_def split: option.splits)
  have c: "existence_note \<notin> set (formable_part P c)"
    by (simp add: formable_part_def existence_note_def formable_note_def)
  show ?thesis using a b c by simp
qed

lemma sample_country_notes:
  "get_country_notes ascii_methods sample_parser sample_country = Inr (sample_notes, None)"
  by code_simp

lemma sample_readable: "readable sample_parser sample_country"
  by code_simp

lemma sample_parts:
  "existence_part sample_country = [''Does not exist in 1337'']"
  "subject_part ascii_methods sample_parser sample_country = [''Tributary of {{flag|DEL}}'']"
  "membership_part ascii_methods sample_parser sample_country =
     [''Member of [[File:IO shaivism branch.png|24px]] [[International organization#Hindu Branches|Shaivism Branch]]'',
      ''Member of [[HRE]]'',
      ''Member of {{iconify|unknown_league}}'']"
  "formable_part sample_parser sample_country = [formable_note]"
  by code_simp+

lemma sample_member_notes:
  "member_notes ascii_methods sample_parser (member_laws sample_diplomacy) ''VIJ'' ''catholic_church'' = []"
  "member_notes ascii_methods sample_parser (member_laws sample_diplomacy) ''VIJ'' ''hindu_branch'' =
     [''Member of [[File:IO shaivism branch.png|24px]] [[International organization#Hindu Branches|Shaivism Branch]]'']"
  "member_notes ascii_methods sample_parser (member_laws sample_diplomacy) ''VIJ'' ''hre'' =
     [''Member of [[HRE]]'']"
  "member_notes ascii_methods sample_parser (member_laws sample_diplomacy) ''VIJ'' ''unknown_league'' =
     [''Member of {{iconify|unknown_league}}'']"
  by code_simp+

lemma tri_state_cell_if:
  "tri_state_cell l x =
     (l, if x = None then [] else if truthy x then yes_markup l else no_markup (''Not '' @ l))"
  by (simp add: tri_state_cell_def truthy_def split: option.splits bool.splits)

lemma two_state_cell_if:
  "two_state_cell l x = (l, if truthy x then yes_markup l else no_markup (''Not '' @ l))"
  by (auto simp: two_state_cell_def truthy_def split: option.splits)

lemma get_law_data_eq:
  "get_law_data_bool_cells e =
     [tri_state_cell ''Requires Vote'' (e ''requires_vote''),
      tri_state_cell ''Unique'' (e ''unique'')]"
  unfolding get_law_data_bool_cells_def tri_state_cell_if two_state_cell_if yes_markup_def no_markup_def
  by (simp cong: if_cong)

lemma get_law_policy_table_eq:
  "get_law_policy_table_bool_cells e =
     [tri_state_cell ''Gold'' (e ''gold''),
      tri_state_cell ''Manpower'' (e ''manpower''),
      tri_state_cell ''Allow Member Annexation'' (e ''allow_member_annexation''),
      tri_state_cell ''Can Build Buildings In Members'' (e ''can_build_buildings_in_members''),
      tri_state_cell ''Can Build Rgos In Members'' (e ''can_build_rgos_in_members''),
      tri_state_cell ''Can Build Roads In Members'' (e ''can_build_roads_in_members''),
      tri_state_cell ''Has Parliament'' (e ''has_parliament'')]"
  unfolding get_law_policy_table_bool_cells_def tri_state_cell_if two_state_cell_if yes_markup_def no_markup_def
  by (simp cong: if_cong)

lemma generate_advances_table_eq:
  "generate_advances_table_bool_cells e =
     [two_state_cell ''Allow Children'' (e ''allow_children'')]"
  unfolding generate_advances_table_bool_cells_def tri_state_cell_if two_state_cell_if yes_markup_def no_markup_def
  by (simp cong: if_cong)

lemma generate_cabinet_actions_table_eq:
  "generate_cabinet_actions_table_bool_cells e =
     [tri_state_cell ''Allow Multiple'' (e ''allow_multiple''),
      two_state_cell ''Forbid For Automation'' (e ''forbid_for_automation'')]"
  unfolding generate_cabinet_actions_table_bool_cells_def tri_state_cell_if two_state_cell_if yes_markup_def no_markup_def
  by (simp cong: if_cong)

lemma generate_casus_belli_table_eq:
  "generate_casus_belli_table_bool_cells e =
     [two_state_cell ''Allow Ports For Reach Ai'' (e ''allow_ports_for_reach_ai''),
      two_state_cell ''Allow Release Areas'' (e ''allow_release_areas''),
      two_state_cell ''Allow Separate Peace'' (e ''allow_separate_peace''),
      two_state_cell ''Can Expire'' (e ''can_expire''),
      two_state_cell ''Cut Down In Size Cb'' (e ''cut_down_in_size_cb''),
      tri_state_cell ''No Cb'' (e ''no_cb''),
      two_state_cell ''Trade'' (e ''trade'')]"
  unfolding generate_casus_belli_table_bool_cells_def tri_state_cell_if two_state_cell_if yes_markup_def no_markup_def
  by (simp cong: if_cong)

lemma generate_cultures_table_eq:
  "generate_cultures_table_bool_cells e =
     [two_state_cell ''Use Patronym'' (e ''use_patronym'')]"
  unfolding generate_cultures_table_bool_cells_def tri_state_cell_if two_state_cell_if yes_markup_def no_markup_def
  by (simp cong: if_cong)

lemma generate_languages_table_eq:
  "generate_languages_table_bool_cells e =
     [two_state_cell ''Require Genitive Location Names'' (e ''require_genitive_location_names'')]"
  unfolding generate_languages_table_bool_cells_def tri_state_cell_if two_state_cell_if yes_markup_def no_markup_def
  by (simp cong: if_cong)

lemma generate_peace_treaties_table_eq:
  "generate_peace_treaties_table_bool_cells e =
     [two_state_cell ''Are Targets Exclusive'' (e ''are_targets_exclusive''),
      two_state_cell ''Blocks Full Annexation'' (e ''blocks_full_annexation'')]"
  unfolding generate_peace_treaties_table_bool_cells_def tri_state_cell_if two_state_cell_if yes_markup_def no_markup_def
  by (simp cong: if_cong)

lemma generate_religions_table_eq:
  "generate_religions_table_bool_cells e =
     [two_state_cell ''Ai Wants Convert'' (e ''ai_wants_convert''),
      two_state_cell ''Culture Locked'' (e ''culture_locked''),
      two_state_cell ''Has Autocephalous Patriarchates'' (e ''has_autocephalous_patriarchates''),
      two_state_cell ''Has Avatars'' (e ''has_avatars''),
      two_state_cell ''Has Canonization'' (e ''has_canonization''),
      two_state_cell ''Has Cardinals'' (e ''has_cardinals''),
      two_state_cell ''Has Doom'' (e ''has_doom''),
      two_state_cell ''Has Honor'' (e ''has_honor''),
      two_state_cell ''Has Karma'' (e ''has_karma''),
      two_state_cell ''Has Patriarchs'' (e ''has_patriarchs''),
      two_state_cell ''Has Purity'' (e ''has_purity''),
      two_state_cell ''Has Religious Head'' (e ''has_religious_head''),
      two_state_cell ''Has Religious Influence'' (e ''has_religious_influence''),
      two_state_cell ''Has Rite Power'' (e ''has_rite_power''),
      two_state_cell ''Has Yanantin'' (e ''has_yanantin''),
      two_state_cell ''Needs Reform'' (e ''needs_reform''),
      two_state_cell ''Use Icons'' (e ''use_icons'')]"
  unfolding generate_religions_table_bool_cells_def tri_state_cell_if two_state_cell_if yes_markup_def no_markup_def
  by (simp cong: if_cong)

lemma generate_subject_types_table_eq:
  "generate_subject_types_table_bool_cells e =
     [two_state_cell ''Allow Declaring Wars'' (e ''allow_declaring_wars''),
      two_state_cell ''Can Be Force Broken In Peace Treaty'' (e ''can_be_force_broken_in_peace_treaty''),
      two_state_cell ''Can Change Heir Selection'' (e ''can_change_heir_selection''),
      two_state_cell ''Can Change Rank'' (e ''can_change_rank''),
      two_state_cell ''Can Overlord Build Buildings'' (e ''can_overlord_build_buildings''),
      two_state_cell ''Can Overlord Build Rgos'' (e ''can_overlord_build_rgos''),
      two_state_cell ''Can Overlord Build Roads'' (e ''can_overlord_build_roads''),
      two_state_cell ''Can Overlord Build Ships'' (e ''can_overlord_build_ships''),
      two_state_cell ''Can Overlord Recruit Regiments'' (e ''can_overlord_recruit_regiments''),
      two_state_cell ''Fleet Basing Rights'' (e ''fleet_basing_rights''),
      two_state_cell ''Food Access'' (e ''food_access''),
      two_state_cell ''Has Limited Diplomacy'' (e ''has_limited_diplomacy''),
      two_state_cell ''Has Overlords Ruler'' (e ''has_overlords_ruler''),
      two_state_cell ''Is Colonial Subject'' (e ''is_colonial_subject''),
      two_state_cell ''Only Overlord Court Language'' (e ''only_overlord_court_language''),
      two_state_cell ''Only Overlord Culture'' (e ''only_overlord_culture''),
      two_state_cell ''Only Overlord Or Kindred Culture'' (e ''only_overlord_or_kindred_culture''),
      two_state_cell ''Overlord Can Cancel'' (e ''overlord_can_cancel''),
      two_state_cell ''Overlord Can Enforce Peace On Subject'' (e ''overlord_can_enforce_peace_on_subject''),
      two_state_cell ''Overlord Inherit If No Heir'' (e ''overlord_inherit_if_no_heir''),
      two_state_cell ''Overlord Share Exploration'' (e ''overlord_share_exploration''),
      tri_state_cell ''Subject Can Cancel'' (e ''subject_can_cancel''),
      two_state_cell ''Use Overlord Laws'' (e ''use_overlord_laws''),
      tri_state_cell ''Use Overlord Map Color'' (e ''use_overlord_map_color''),
      two_state_cell ''Use Overlord Map Name'' (e ''use_overlord_map_name'')]"
  unfolding generate_subject_types_table_bool_cells_def tri_state_cell_if two_state_cell_if yes_markup_def no_markup_def
  by (simp cong: if_cong)

lemma generate_unit_types_table_eq:
  "generate_unit_types_table_bool_cells e =
     [tri_state_cell ''Buildable'' (e ''buildable''),
      two_state_cell ''Default'' (e ''default''),
      two_state_cell ''Levy'' (e ''levy''),
      tri_state_cell ''Use Ship Names'' (e ''use_ship_names'')]"
  unfolding generate_unit_types_table_bool_cells_def tri_state_cell_if two_state_cell_if yes_markup_def no_markup_def
  by (simp cong: if_cong)

lemma generate_wargoals_table_eq:
  "generate_wargoals_table_bool_cells e =
     [two_state_cell ''War Name Is Country Order Agnostic'' (e ''war_name_is_country_order_agnostic'')]"
  unfolding generate_wargoals_table_bool_cells_def tri_state_cell_if two_state_cell_if yes_markup_def no_markup_def
  by (simp cong: if_cong)

section \<open>Claims\<close>

text \<open>
  C10. For a dict (given by its items, in insertion order) and for a list of (header,
  content) pairs alike, \<open>merge_multiple_sections\<close> omits every pair whose content is empty or whitespace-only, renders each remaining pair
  as a bold header line (only when the header is non-empty) followed by its content,
  joins the rendered pairs with newlines in input order, and returns the empty string
  exactly when every content is blank.
\<close>

theorem merge_multiple_sections_spec:
  "merge_multiple_sections (HDict kvs) =
     join nl (map render_pair (filter (\<lambda>hc. \<not> blank (snd hc)) kvs))
   \<and> merge_multiple_sections (HList kvs) =
     join nl (map render_pair (filter (\<lambda>hc. \<not> blank (snd hc)) kvs))
   \<and> (merge_multiple_sections (HDict kvs) = [] \<longleftrightarrow> (\<forall>hc \<in> set kvs. blank (snd hc)))
   \<and> (merge_multiple_sections (HList kvs) = [] \<longleftrightarrow> (\<forall>hc \<in> set kvs. blank (snd hc)))"
proof -
  let ?kept = "filter (\<lambda>hc. \<not> blank (snd hc)) kvs"
  have dict: "merge_multiple_sections (HDict kvs) = join nl (map render_pair ?kept)"
    by (simp add: merge_multiple_sections_def merge_loop_acc)
  have pairs: "merge_multiple_sections (HList kvs) = join nl (map render_pair ?kept)"
    by (simp add: merge_multiple_sections_def merge_loop_acc)
  have ne: "\<forall>x \<in> set (map render_pair ?kept). x \<noteq> []"
    by (auto simp: render_pair_nonempty)
  have "join nl (map render_pair ?kept) = [] \<longleftrightarrow> ?kept = []"
    using ne by (cases ?kept) (auto simp: join_eq_Nil_iff)
  also have "\<dots> \<longleftrightarrow> (\<forall>hc \<in> set kvs. blank (snd hc))"
    by (simp add: filter_empty_conv)
  finally have empty: "join nl (map render_pair ?kept) = [] \<longleftrightarrow> (\<forall>hc \<in> set kvs. blank (snd hc))" .
  show ?thesis
    using dict pairs empty by simp
qed

text \<open>
  C1. \<open>infer_country_rank_key\<close> classifies by the number of distinct provinces in the
  union over the ownership attributes: 0, 1 or 2 give \<open>rank_county\<close>, 3 to 5
  \<open>rank_duchy\<close>, 6 to 12 \<open>rank_kingdom\<close>, more than 12 \<open>rank_empire\<close>; with no
  province the result is \<open>rank_county\<close>, not \<open>None\<close> (and the function has no error
  path).
\<close>

theorem infer_country_rank_key_tiers:
  "candidates =
     [''own_control_core'', ''own_core'', ''control'', ''own_conquered'',
      ''own_control_conquered'', ''own_control_integrated'', ''own_control_colony'']
   \<and> infer_country_rank_key c =
     Some (if card (owned_provinces c) \<le> 2 then ''rank_county''
           else if card (owned_provinces c) \<le> 5 then ''rank_duchy''
           else if card (owned_provinces c) \<le> 12 then ''rank_kingdom''
           else ''rank_empire'')
   \<and> (infer_country_rank_key c = Some ''rank_county'' \<longleftrightarrow> card (owned_provinces c) \<in> {0, 1, 2})
   \<and> (infer_country_rank_key c = Some ''rank_duchy'' \<longleftrightarrow> card (owned_provinces c) \<in> {3..5})
   \<and> (infer_country_rank_key c = Some ''rank_kingdom'' \<longleftrightarrow> card (owned_provinces c) \<in> {6..12})
   \<and> (infer_country_rank_key c = Some ''rank_empire'' \<longleftrightarrow> card (owned_provinces c) > 12)"
proof -
  have "collect_provinces candidates c {} = owned_provinces c"
    by (simp add: collect_provinces_eq owned_provinces_def)
  then have eq: "infer_country_rank_key c =
     Some (if card (owned_provinces c) \<le> 2 then ''rank_county''
           else if card (owned_provinces c) \<le> 5 then ''rank_duchy''
           else if card (owned_provinces c) \<le> 12 then ''rank_kingdom''
           else ''rank_empire'')"
    by (simp add: infer_country_rank_key_def Let_def)
  have county: "card (owned_provinces c) \<in> {0, 1, 2} \<longleftrightarrow> card (owned_provinces c) \<le> 2"
    by auto
  show ?thesis
    unfolding eq county by (auto simp: candidates_def)
qed

theorem merge_multiple_sections_spec_witness:
  "merge_multiple_sections (HDict [(''A'', ''x''), (''B'', '' ''), (''C'', ''z'')]) =
     bold_quotes @ ''A:'' @ bold_quotes @ nl @ ''x'' @ nl @
     bold_quotes @ ''C:'' @ bold_quotes @ nl @ ''z''
   \<and> merge_multiple_sections (HList [(''A'', ''x''), (''B'', '' ''), ([], ''y'')]) =
     bold_quotes @ ''A:'' @ bold_quotes @ nl @ ''x'' @ nl @ ''y''
   \<and> merge_multiple_sections (HDict [(''A'', ''x'')]) \<noteq> []
   \<and> blank '' ''
   \<and> merge_multiple_sections (HDict [(''B'', '' '')]) = []
   \<and> merge_multiple_sections (HList [(''B'', '' ''), ([], [])]) = []"
  using merge_multiple_sections_spec [of "[(''A'', ''x''), (''B'', '' ''), (''C'', ''z'')]"]
    merge_multiple_sections_spec [of "[(''A'', ''x''), (''B'', '' ''), ([], ''y'')]"]
    merge_multiple_sections_spec [of "[(''A'', ''x'')]"]
    merge_multiple_sections_spec [of "[(''B'', '' '')]"]
    merge_multiple_sections_spec [of "[(''B'', '' ''), ([], [])]"]
  by (simp add: blank_def py_isspace_def render_pair_def)

text \<open>
  C2 (as amended). \<open>_format_time_to_implement\<close> with \<open>ignore_default_years = 2\<close> first
  carries overflow into years: for non-negative days, weeks and months, each full 365
  days, each full 52 weeks and each full 12 months becomes one year, the remainders being
  kept. It then returns the empty string when the normalized value is years = 2 with
  days, weeks and months 0, and also when no normalized component is positive (all four
  0, for instance); otherwise it returns the positive components in the order years,
  months, weeks, days, one per line. An input of days = 400 with the rest 0 normalizes to
  years = 1, days = 35.
\<close>

theorem time_to_implement_normalized:
  "(0 \<le> days p \<and> 0 \<le> weeks p \<and> 0 \<le> months p \<longrightarrow>
      normalize_time p =
        (years p + days p div 365 + weeks p div 52 + months p div 12,
         months p mod 12, weeks p mod 52, days p mod 365))
   \<and> time_to_implement_cell p =
       (if normalize_time p = (2, 0, 0, 0) then []
        else join nl (map time_component (shown_components (normalize_time p))))
   \<and> (time_to_implement_cell p = [] \<longleftrightarrow>
        normalize_time p = (2, 0, 0, 0) \<or> shown_components (normalize_time p) = [])
   \<and> shown_components (normalize_time p) =
       filter (\<lambda>nu. fst nu > 0)
         [(fst (normalize_time p), ''years''),
          (fst (snd (normalize_time p)), ''months''),
          (fst (snd (snd (normalize_time p))), ''weeks''),
          (snd (snd (snd (normalize_time p))), ''days'')]
   \<and> normalize_time \<lparr>days = 400, weeks = 0, months = 0, years = 0\<rparr> = (1, 0, 0, 35)"
proof -
  obtain y m w d where n: "normalize_time p = (y, m, w, d)"
    by (cases "normalize_time p") auto
  have cell: "time_to_implement_cell p =
       (if normalize_time p = (2, 0, 0, 0) then []
        else join nl (map time_component (shown_components (normalize_time p))))"
    by (simp add: time_to_implement_cell_def format_time_to_implement_eq n)
  have "join nl (map time_component (shown_components (normalize_time p))) = []
          \<longleftrightarrow> shown_components (normalize_time p) = []"
    using join_nonempty_eq_Nil_iff [of "map time_component (shown_components (normalize_time p))" nl]
    by (simp add: time_component_nonempty)
  then have empty: "time_to_implement_cell p = [] \<longleftrightarrow>
        normalize_time p = (2, 0, 0, 0) \<or> shown_components (normalize_time p) = []"
    unfolding cell by auto
  have shown: "shown_components (normalize_time p) =
       filter (\<lambda>nu. fst nu > 0)
         [(fst (normalize_time p), ''years''),
          (fst (snd (normalize_time p)), ''months''),
          (fst (snd (snd (normalize_time p))), ''weeks''),
          (snd (snd (snd (normalize_time p))), ''days'')]"
    by (simp add: n shown_components_def)
  have ex: "normalize_time \<lparr>days = 400, weeks = 0, months = 0, years = 0\<rparr> = (1, 0, 0, 35)"
    by (simp add: normalize_time_def)
  show ?thesis
    using cell empty shown ex normalize_time_nonneg [of p] by blast
qed

theorem time_to_implement_normalized_witness:
  "time_to_implement_cell \<lparr>days = 400, weeks = 60, months = 13, years = 0\<rparr> =
     ''3 years'' @ nl @ ''1 months'' @ nl @ ''8 weeks'' @ nl @ ''35 days''
   \<and> normalize_time \<lparr>days = 400, weeks = 60, months = 13, years = 0\<rparr> = (3, 1, 8, 35)
   \<and> time_to_implement_cell \<lparr>days = 365, weeks = 52, months = 0, years = 0\<rparr> = []"
proof -
  have s: "str_int 3 = ''3''" "str_int 1 = ''1''" "str_int 8 = ''8''" "str_int 35 = ''35''"
    by code_simp+
  show ?thesis
    using time_to_implement_normalized [of "\<lparr>days = 400, weeks = 60, months = 13, years = 0\<rparr>"]
      time_to_implement_normalized [of "\<lparr>days = 365, weeks = 52, months = 0, years = 0\<rparr>"]
    by (simp add: shown_components_def time_component_def s)
qed

theorem time_to_implement_empty_counterexample:
  "time_to_implement_cell \<lparr>days = 0, weeks = 0, months = 0, years = 0\<rparr> = []
   \<and> normalize_time \<lparr>days = 0, weeks = 0, months = 0, years = 0\<rparr> = (0, 0, 0, 0)
   \<and> normalize_time \<lparr>days = 0, weeks = 0, months = 0, years = 0\<rparr> \<noteq> (2, 0, 0, 0)"
  by (simp add: time_to_implement_cell_def format_time_to_implement_def normalize_time_def)

text \<open>
  C4 (as amended). The generators render 70 boolean fields with the icon markup, in
  twelve tables. Each of them renders \<open>True\<close> as the Yes icon with the field's human
  label as alt label, and \<open>False\<close> as the No icon whose alt label is \<open>Not\<close> followed
  by the human label. The 15 of them that are written behind a test for \<open>None\<close> render
  \<open>None\<close> as the empty string. Two further renderings of a boolean have no icon: the
  Inflation column of the goods table is \<open>yes\<close> for a true value and empty otherwise,
  and the cargo data of a building has 1 or 0 for \<open>city\<close>, \<open>rural_settlement\<close> and
  \<open>town\<close>.
\<close>

theorem boolean_cells_tri_state:
  "get_law_data_bool_cells e =
     [tri_state_cell ''Requires Vote'' (e ''requires_vote''),
      tri_state_cell ''Unique'' (e ''unique'')]
   \<and> get_law_policy_table_bool_cells e =
     [tri_state_cell ''Gold'' (e ''gold''),
      tri_state_cell ''Manpower'' (e ''manpower''),
      tri_state_cell ''Allow Member Annexation'' (e ''allow_member_annexation''),
      tri_state_cell ''Can Build Buildings In Members'' (e ''can_build_buildings_in_members''),
      tri_state_cell ''Can Build Rgos In Members'' (e ''can_build_rgos_in_members''),
      tri_state_cell ''Can Build Roads In Members'' (e ''can_build_roads_in_members''),
      tri_state_cell ''Has Parliament'' (e ''has_parliament'')]
   \<and> generate_advances_table_bool_cells e =
     [two_state_cell ''Allow Children'' (e ''allow_children'')]
   \<and> generate_cabinet_actions_table_bool_cells e =
     [tri_state_cell ''Allow Multiple'' (e ''allow_multiple''),
      two_state_cell ''Forbid For Automation'' (e ''forbid_for_automation'')]
   \<and> generate_casus_belli_table_bool_cells e =
     [two_state_cell ''Allow Ports For Reach Ai'' (e ''allow_ports_for_reach_ai''),
      two_state_cell ''Allow Release Areas'' (e ''allow_release_areas''),
      two_state_cell ''Allow Separate Peace'' (e ''allow_separate_peace''),
      two_state_cell ''Can Expire'' (e ''can_expire''),
      two_state_cell ''Cut Down In Size Cb'' (e ''cut_down_in_size_cb''),
      tri_state_cell ''No Cb'' (e ''no_cb''),
      two_state_cell ''Trade'' (e ''trade'')]
   \<and> generate_cultures_table_bool_cells e =
     [two_state_cell ''Use Patronym'' (e ''use_patronym'')]
   \<and> generate_languages_table_bool_cells e =
     [two_state_cell ''Require Genitive Location Names'' (e ''require_genitive_location_names'')]
   \<and> generate_peace_treaties_table_bool_cells e =
     [two_state_cell ''Are Targets Exclusive'' (e ''are_targets_exclusive''),
      two_state_cell ''Blocks Full Annexation'' (e ''blocks_full_annexation'')]
   \<and> generate_religions_table_bool_cells e =
     [two_state_cell ''Ai Wants Convert'' (e ''ai_wants_convert''),
      two_state_cell ''Culture Locked'' (e ''culture_locked''),
      two_state_cell ''Has Autocephalous Patriarchates'' (e ''has_autocephalous_patriarchates''),
      two_state_cell ''Has Avatars'' (e ''has_avatars''),
      two_state_cell ''Has Canonization'' (e ''has_canonization''),
      two_state_cell ''Has Cardinals'' (e ''has_cardinals''),
      two_state_cell ''Has Doom'' (e ''has_doom''),
      two_state_cell ''Has Honor'' (e ''has_honor''),
      two_state_cell ''Has Karma'' (e ''has_karma''),
      two_state_cell ''Has Patriarchs'' (e ''has_patriarchs''),
      two_state_cell ''Has Purity'' (e ''has_purity''),
      two_state_cell ''Has Religious Head'' (e ''has_religious_head''),
      two_state_cell ''Has Religious Influence'' (e ''has_religious_influence''),
      two_state_cell ''Has Rite Power'' (e ''has_rite_power''),
      two_state_cell ''Has Yanantin'' (e ''has_yanantin''),
      two_state_cell ''Needs Reform'' (e ''needs_reform''),
      two_state_cell ''Use Icons'' (e ''use_icons'')]
   \<and> generate_subject_types_table_bool_cells e =
     [two_state_cell ''Allow Declaring Wars'' (e ''allow_declaring_wars''),
      two_state_cell ''Can Be Force Broken In Peace Treaty'' (e ''can_be_force_broken_in_peace_treaty''),
      two_state_cell ''Can Change Heir Selection'' (e ''can_change_heir_selection''),
      two_state_cell ''Can Change Rank'' (e ''can_change_rank''),
      two_state_cell ''Can Overlord Build Buildings'' (e ''can_overlord_build_buildings''),
      two_state_cell ''Can Overlord Build Rgos'' (e ''can_overlord_build_rgos''),
      two_state_cell ''Can Overlord Build Roads'' (e ''can_overlord_build_roads''),
      two_state_cell ''Can Overlord Build Ships'' (e ''can_overlord_build_ships''),
      two_state_cell ''Can Overlord Recruit Regiments'' (e ''can_overlord_recruit_regiments''),
      two_state_cell ''Fleet Basing Rights'' (e ''fleet_basing_rights''),
      two_state_cell ''Food Access'' (e ''food_access''),
      two_state_cell ''Has Limited Diplomacy'' (e ''has_limited_diplomacy''),
      two_state_cell ''Has Overlords Ruler'' (e ''has_overlords_ruler''),
      two_state_cell ''Is Colonial Subject'' (e ''is_colonial_subject''),
      two_state_cell ''Only Overlord Court Language'' (e ''only_overlord_court_language''),
      two_state_cell ''Only Overlord Culture'' (e ''only_overlord_culture''),
      two_state_cell ''Only Overlord Or Kindred Culture'' (e ''only_overlord_or_kindred_culture''),
      two_state_cell ''Overlord Can Cancel'' (e ''overlord_can_cancel''),
      two_state_cell ''Overlord Can Enforce Peace On Subject'' (e ''overlord_can_enforce_peace_on_subject''),
      two_state_cell ''Overlord Inherit If No Heir'' (e ''overlord_inherit_if_no_heir''),
      two_state_cell ''Overlord Share Exploration'' (e ''overlord_share_exploration''),
      tri_state_cell ''Subject Can Cancel'' (e ''subject_can_cancel''),
      two_state_cell ''Use Overlord Laws'' (e ''use_overlord_laws''),
      tri_state_cell ''Use Overlord Map Color'' (e ''use_overlord_map_color''),
      two_state_cell ''Use Overlord Map Name'' (e ''use_overlord_map_name'')]
   \<and> generate_unit_types_table_bool_cells e =
     [tri_state_cell ''Buildable'' (e ''buildable''),
      two_state_cell ''Default'' (e ''default''),
      two_state_cell ''Levy'' (e ''levy''),
      tri_state_cell ''Use Ship Names'' (e ''use_ship_names'')]
   \<and> generate_wargoals_table_bool_cells e =
     [two_state_cell ''War Name Is Country Order Agnostic'' (e ''war_name_is_country_order_agnostic'')]
   \<and> tri_state_cell label None = (label, [])
   \<and> tri_state_cell label (Some True) = (label, ''[[File:Yes.png|20px|'' @ label @ '']]'')
   \<and> tri_state_cell label (Some False) = (label, ''[[File:No.png|20px|Not '' @ label @ '']]'')
   \<and> two_state_cell label (Some True) = (label, ''[[File:Yes.png|20px|'' @ label @ '']]'')
   \<and> two_state_cell label (Some False) = (label, ''[[File:No.png|20px|Not '' @ label @ '']]'')
   \<and> snd (get_goods_table_inflation_cell e) = (if e ''inflation'' = Some True then ''yes'' else [])
   \<and> generate_building_table_cargo_bool_fields e =
       [(''city'', if e ''city'' = Some True then 1 else 0),
        (''rural_settlement'', if e ''rural_settlement'' = Some True then 1 else 0),
        (''town'', if e ''town'' = Some True then 1 else 0)]"
proof -
  have shape:
    "tri_state_cell label None = (label, [])"
    "tri_state_cell label (Some True) = (label, ''[[File:Yes.png|20px|'' @ label @ '']]'')"
    "tri_state_cell label (Some False) = (label, ''[[File:No.png|20px|Not '' @ label @ '']]'')"
    "two_state_cell label (Some True) = (label, ''[[File:Yes.png|20px|'' @ label @ '']]'')"
    "two_state_cell label (Some False) = (label, ''[[File:No.png|20px|Not '' @ label @ '']]'')"
    by (simp_all add: tri_state_cell_def two_state_cell_def yes_markup_def no_markup_def)
  have t: "truthy x \<longleftrightarrow> x = Some True" for x
    by (cases x) (auto simp: truthy_def)
  have inflation:
    "snd (get_goods_table_inflation_cell e) = (if e ''inflation'' = Some True then ''yes'' else [])"
    by (simp add: get_goods_table_inflation_cell_def t)
  have cargo: "generate_building_table_cargo_bool_fields e =
       [(''city'', if e ''city'' = Some True then 1 else 0),
        (''rural_settlement'', if e ''rural_settlement'' = Some True then 1 else 0),
        (''town'', if e ''town'' = Some True then 1 else 0)]"
    by (simp add: generate_building_table_cargo_bool_fields_def t)
  show ?thesis
    by (intro conjI)
       (rule get_law_data_eq get_law_policy_table_eq generate_advances_table_eq generate_cabinet_actions_table_eq generate_casus_belli_table_eq generate_cultures_table_eq generate_languages_table_eq generate_peace_treaties_table_eq generate_religions_table_eq generate_subject_types_table_eq generate_unit_types_table_eq generate_wargoals_table_eq
          shape inflation cargo)+
qed

theorem boolean_cells_counterexample:
  "get_law_policy_table_bool_cells (\<lambda>a. Some False) ! 0 = (''Gold'', no_markup ''Not Gold'')
   \<and> no_markup ''Not Gold'' \<noteq> no_markup ''Gold''
   \<and> snd (get_goods_table_inflation_cell (\<lambda>a. Some False)) = []
   \<and> snd (get_goods_table_inflation_cell (\<lambda>a. Some True)) = ''yes''
   \<and> generate_advances_table_bool_cells (\<lambda>a. None) =
       [(''Allow Children'', ''[[File:No.png|20px|Not Allow Children]]'')]"
  by (simp add: get_law_policy_table_bool_cells_def get_goods_table_inflation_cell_def
      generate_advances_table_bool_cells_def truthy_def no_markup_def)

text \<open>
  C9. \<open>get_concept_section\<close> ends with the section line, which is the begin marker, the
  section contents and the end marker; both markers carry the one key
  \<open>autogenerated_concept_\<close> followed by the concept's name. The function is pure: the
  section line is determined by the localizer, the concept names, the concept's name and
  its description, so a second run on the same inputs gives the same string.
\<close>

theorem get_concept_section_markers:
  "last (get_concept_section F names c) =
     section_begin (''autogenerated_concept_'' @ concept_name c) @
     get_concept_section_contents F names c @
     section_end (''autogenerated_concept_'' @ concept_name c)
   \<and> section_begin (''autogenerated_concept_'' @ concept_name c) =
       ''<section begin=autogenerated_concept_'' @ concept_name c @ ''/>''
   \<and> section_end (''autogenerated_concept_'' @ concept_name c) =
       ''<section end=autogenerated_concept_'' @ concept_name c @ ''/>''
   \<and> get_concept_section F names c \<noteq> []
   \<and> get_concept_section F names
        \<lparr>concept_name = concept_name c, concept_str = concept_str c,
         alias_display_names = alias_display_names c, description = description c\<rparr>
       = get_concept_section F names c
   \<and> last (get_concept_section F names
        \<lparr>concept_name = concept_name c, concept_str = s', alias_display_names = a',
         description = description c\<rparr>)
       = last (get_concept_section F names c)"
  by (simp add: get_concept_section_def get_concept_section_contents_def section_begin_def
      section_end_def Let_def)

text \<open>
  C3. For a building that has the attributes of the message table, with their declared
  defaults, \<open>get_building_notes\<close> emits the note of an attribute if and only if the
  live value is unequal to the declared default (Python's \<open>!=\<close>, not truthiness); the
  notes come in the declaration order of the table, from \<open>always_add_demands\<close> to
  \<open>on_destroyed\<close>, as a bulleted wiki list.
\<close>

theorem get_building_notes_non_default:
  assumes "complete_building b"
  shows "\<exists>msgs. messages_for_non_default_values F b = Inr msgs
           \<and> map fst msgs = note_attributes
           \<and> hd (map fst msgs) = ''always_add_demands''
           \<and> last (map fst msgs) = ''on_destroyed''
           \<and> get_building_notes F b =
               Inr (create_wiki_list (map snd (filter (\<lambda>am. differs b (fst am)) msgs)))"
proof -
  obtain msgs where msgs: "messages_for_non_default_values F b = Inr msgs"
    using messages_complete [OF assms] by blast
  have names: "map fst msgs = note_attributes"
    using msgs by (rule messages_attributes)
  have "\<forall>a \<in> set note_attributes. battrs b a \<noteq> None \<and> default_values b a \<noteq> None"
    using assms by (simp add: complete_building_def list_all_iff)
  then have "\<forall>a \<in> fst ` set msgs. battrs b a \<noteq> None \<and> default_values b a \<noteq> None"
    using names by (metis list.set_map)
  then have loop: "notes_loop b msgs [] =
      Inr (map snd (filter (\<lambda>am. differs b (fst am)) msgs))"
    using notes_loop_complete [of msgs b "[]"] by simp
  have ends: "hd note_attributes = ''always_add_demands''"
    "last note_attributes = ''on_destroyed''"
    by (simp_all add: note_attributes_def)
  show ?thesis
    using msgs names loop ends by (simp add: get_building_notes_def)
qed

theorem get_building_notes_non_default_witness:
  "complete_building pops_building
   \<and> get_building_notes sample_formatter pops_building =
       Inr ''* Creates 5 pops when building(taken from the capital of the owner)''
   \<and> complete_building default_building
   \<and> get_building_notes sample_formatter default_building = Inr []"
proof -
  have c1: "complete_building pops_building"
    by (simp add: complete_building_def pops_building_def note_attributes_def
        sample_defaults_simps)
  have c2: "complete_building default_building"
    by (simp add: complete_building_def default_building_def note_attributes_def
        sample_defaults_simps)
  have five: "str_int 5 = ''5''"
    by code_simp
  obtain msgs1 where msgs1:
    "messages_for_non_default_values sample_formatter pops_building = Inr msgs1"
    "get_building_notes sample_formatter pops_building =
       Inr (create_wiki_list (map snd (filter (\<lambda>am. differs pops_building (fst am)) msgs1)))"
    using get_building_notes_non_default [OF c1, of sample_formatter] by blast
  obtain msgs2 where msgs2:
    "messages_for_non_default_values sample_formatter default_building = Inr msgs2"
    "get_building_notes sample_formatter default_building =
       Inr (create_wiki_list (map snd (filter (\<lambda>am. differs default_building (fst am)) msgs2)))"
    using get_building_notes_non_default [OF c2, of sample_formatter] by blast
  have f1: "map snd (filter (\<lambda>am. differs pops_building (fst am)) msgs1) =
      [''Creates 5 pops when building(taken from the capital of the owner)'']"
    using msgs1(1)
    by (auto simp: messages_for_non_default_values_def getattr_def pops_building_def
        sample_defaults_simps sample_formatter_def five differs_def py_ne_def)
  have f2: "map snd (filter (\<lambda>am. differs default_building (fst am)) msgs2) = []"
    using msgs2(1)
    by (auto simp: messages_for_non_default_values_def getattr_def default_building_def
        sample_defaults_simps sample_formatter_def differs_def py_ne_def)
  show ?thesis
    using c1 c2 msgs1(2) msgs2(2) unfolding f1 f2
    by (simp add: create_wiki_list_def)
qed

text \<open>
  C5 (as amended). \<open>format_modifier_section\<close> returns the empty string, and raises no
  error, whenever the entity has no attribute named by the section. Note generation has
  no such guard: \<open>get_building_notes\<close> reads every attribute of its message table and
  aborts with an error when the building lacks one of them.
\<close>

theorem missing_attribute_policy:
  "(section \<notin> dom entity \<longrightarrow> format_modifier_section section entity = Inr [])
   \<and> (a \<in> set note_attributes \<and> battrs b a = None \<longrightarrow> (\<exists>e. get_building_notes F b = Inl e))"
proof -
  have fms: "section \<notin> dom entity \<longrightarrow> format_modifier_section section entity = Inr []"
    by (simp add: format_modifier_section_def)
  have aborts: "\<exists>e. get_building_notes F b = Inl e"
    if a: "a \<in> set note_attributes" and missing: "battrs b a = None"
  proof (cases "messages_for_non_default_values F b")
    case (Inl e)
    then show ?thesis by (simp add: get_building_notes_def)
  next
    case (Inr msgs)
    then have "map fst msgs = note_attributes" by (rule messages_attributes)
    then have "a \<in> fst ` set msgs" using a by (metis list.set_map)
    then obtain e where "notes_loop b msgs [] = Inl e"
      using notes_loop_missing [OF _ missing] by blast
    then show ?thesis using Inr by (simp add: get_building_notes_def)
  qed
  show ?thesis using fms aborts by blast
qed

theorem missing_attribute_policy_witness:
  "format_modifier_section ''country_modifier'' Map.empty = Inr []
   \<and> get_building_notes sample_formatter
        \<lparr>battrs = sample_defaults(''can_close'' := None), default_values = sample_defaults\<rparr>
      = Inl AttributeError"
proof -
  let ?b = "\<lparr>battrs = sample_defaults(''can_close'' := None), default_values = sample_defaults\<rparr>"
  have "''can_close'' \<in> set note_attributes \<and> battrs ?b ''can_close'' = None"
    by (simp add: note_attributes_def)
  then obtain e where e: "get_building_notes sample_formatter ?b = Inl e"
    using missing_attribute_policy [of "''country_modifier''" Map.empty "''can_close''" ?b
        sample_formatter]
    by blast
  have "get_building_notes sample_formatter ?b = Inl AttributeError"
    by (simp add: get_building_notes_def messages_for_non_default_values_def getattr_def
        sample_defaults_simps py_ne_def)
  then show ?thesis
    using missing_attribute_policy [of "''country_modifier''" Map.empty "''can_close''" ?b
        sample_formatter] e
    by simp
qed

theorem missing_attribute_notes_counterexample:
  "''conversion_religion'' \<notin> dom (sample_defaults(''conversion_religion'' := None))
   \<and> get_building_notes sample_formatter
        \<lparr>battrs = sample_defaults(''conversion_religion'' := None),
         default_values = sample_defaults\<rparr>
      = Inl AttributeError"
  by (simp add: get_building_notes_def messages_for_non_default_values_def getattr_def)

text \<open>
  C6. \<open>get_country_notes\<close> emits the note \<open>Does not exist in 1337\<close> if and only if the
  attribute \<open>our_cores_conquered_by_others\<close> exists and is non-empty while each of the
  seven ownership attributes is absent or empty: the ownership test is a disjunction of
  the per-attribute tests. The function returns whenever the attributes it measures
  are lists and the relationship tables are there.
\<close>

theorem existence_note_iff:
  "(\<forall>notes nd. get_country_notes S P c = Inr (notes, nd) \<longrightarrow>
      (existence_note \<in> set notes \<longleftrightarrow>
         nonempty c ''our_cores_conquered_by_others''
         \<and> \<not> nonempty c ''own_control_core'' \<and> \<not> nonempty c ''own_core''
         \<and> \<not> nonempty c ''own_conquered'' \<and> \<not> nonempty c ''own_control_conquered''
         \<and> \<not> nonempty c ''own_control_integrated'' \<and> \<not> nonempty c ''own_control_colony''
         \<and> \<not> nonempty c ''control''))
   \<and> (readable P c \<longrightarrow> (\<exists>notes. get_country_notes S P c = Inr (notes, None)))
   \<and> existence_note = ''Does not exist in 1337''"
proof -
  have iff: "existence_note \<in> set ns \<longleftrightarrow>
         nonempty c ''our_cores_conquered_by_others''
         \<and> \<not> nonempty c ''own_control_core'' \<and> \<not> nonempty c ''own_core''
         \<and> \<not> nonempty c ''own_conquered'' \<and> \<not> nonempty c ''own_control_conquered''
         \<and> \<not> nonempty c ''own_control_integrated'' \<and> \<not> nonempty c ''own_control_colony''
         \<and> \<not> nonempty c ''control''"
    if r: "get_country_notes S P c = Inr (ns, nd)" for ns nd
  proof -
    have parts: "ns =
        existence_part c @ (subject_part S P c @ membership_part S P c @ formable_part P c)"
      using get_country_notes_parts [OF r] by simp
    have "existence_note \<in> set ns \<longleftrightarrow> existence_note \<in> set (existence_part c)"
      unfolding parts using existence_note_not_later [of S P c] by auto
    also have "\<dots> \<longleftrightarrow> does_not_exist c"
      by (simp add: existence_part_def)
    finally show ?thesis
      by (simp add: does_not_exist_def)
  qed
  show ?thesis
    using iff get_country_notes_returns [where P = P and c = c and S = S] by (simp add: existence_note_def)
qed

theorem existence_note_iff_witness:
  "readable sample_parser sample_country
   \<and> get_country_notes ascii_methods sample_parser sample_country = Inr (sample_notes, None)
   \<and> existence_note \<in> set sample_notes
   \<and> nonempty sample_country ''our_cores_conquered_by_others''
   \<and> \<not> nonempty sample_country ''control''"
proof -
  have "existence_note \<in> set sample_notes"
    by (simp add: existence_note_def sample_notes_def)
  then show ?thesis
    using existence_note_iff [where S = ascii_methods and P = sample_parser and c = sample_country] sample_country_notes
      sample_readable
    by simp
qed

text \<open>
  C7 (as amended). For a country with memberships, \<open>get_country_notes\<close> emits, between
  the subject note and the formable note, the notes of the organizations of its list, in
  the order of the list: none for an organization whose lower-cased name is
  \<open>catholic_church\<close> or \<open>papacy\<close>, exactly one \<open>Member of\<close> note for any other. For
  an organization whose lower-cased name is \<open>hindu_branch\<close> and which is known to the
  parser, when the table \<open>io_member_laws\<close> lists a branch law for the member, the note
  shows the display of the first listed key (of the law policy, else of the law, else the
  title-cased key with spaces for underscores), provided that display is not empty; when
  the table has no entry for the member or the organization, or an empty list, and when
  the display is empty, the note is that of any other organization. A known organization
  gets the note with its own link, an unknown one the \<open>iconify\<close> note with its name.
\<close>

theorem membership_notes:
  "(\<forall>notes nd d iom ios.
      get_country_notes S P c = Inr (notes, nd) \<and> diplomacy_relationships P = Some d
      \<and> diplo_io_members d = Some iom \<and> iom (name c) = Some ios \<longrightarrow>
      notes = existence_part c @ subject_part S P c
              @ concat (map (member_notes S P (member_laws d) (name c)) ios)
              @ formable_part P c)
   \<and> (diplo_io_member_laws d = None \<longrightarrow> member_laws d cn = None)
   \<and> (diplo_io_member_laws d = Some table \<longrightarrow> member_laws d cn = table cn)
   \<and> (str_lower S io \<in> {''catholic_church'', ''papacy''} \<longrightarrow> member_notes S P L cn io = [])
   \<and> (str_lower S io \<notin> {''catholic_church'', ''papacy''} \<longrightarrow>
        (\<exists>r. member_notes S P L cn io = [''Member of '' @ r]))
   \<and> (str_lower S io = ''hindu_branch'' \<and> international_organizations P io = Some link
        \<and> L cn = Some of_member \<and> of_member io = Some (key # others) \<longrightarrow>
        member_notes S P L cn io =
          (let shown =
                 (case law_policies P key of
                    Some policy_display \<Rightarrow> policy_display
                  | None \<Rightarrow>
                      (case laws P key of
                         Some law_display \<Rightarrow> law_display
                       | None \<Rightarrow> str_title S (replace_underscores key)))
           in if shown \<noteq> [] then
                [''Member of [[File:IO '' @ str_lower S shown @
                 ''.png|24px]] [[International organization#Hindu Branches|'' @ shown @ '']]'']
              else [''Member of '' @ link]))
   \<and> (str_lower S io = ''hindu_branch'' \<and> international_organizations P io = Some link
        \<and> (L cn = None
             \<or> (\<exists>of_member. L cn = Some of_member
                   \<and> (of_member io = None \<or> of_member io = Some []))) \<longrightarrow>
        member_notes S P L cn io = [''Member of '' @ link])
   \<and> (str_lower S io \<notin> {''catholic_church'', ''papacy''} \<and> str_lower S io \<noteq> ''hindu_branch''
        \<and> international_organizations P io = Some link \<longrightarrow>
        member_notes S P L cn io = [''Member of '' @ link])
   \<and> (str_lower S io \<notin> {''catholic_church'', ''papacy''}
        \<and> international_organizations P io = None \<longrightarrow>
        member_notes S P L cn io = [''Member of {{iconify|'' @ io @ ''}}''])"
proof -
  have whole: "\<forall>notes nd d iom ios.
      get_country_notes S P c = Inr (notes, nd) \<and> diplomacy_relationships P = Some d
      \<and> diplo_io_members d = Some iom \<and> iom (name c) = Some ios \<longrightarrow>
      notes = existence_part c @ subject_part S P c
              @ concat (map (member_notes S P (member_laws d) (name c)) ios)
              @ formable_part P c"
  proof (intro allI impI)
    fix ns nd d iom ios
    assume a: "get_country_notes S P c = Inr (ns, nd) \<and> diplomacy_relationships P = Some d
      \<and> diplo_io_members d = Some iom \<and> iom (name c) = Some ios"
    then have "membership_part S P c =
        concat (map (member_notes S P (member_laws d) (name c)) ios)"
      by (simp add: membership_part_def)
    moreover have "ns = existence_part c @ subject_part S P c @ membership_part S P c
        @ formable_part P c"
      using get_country_notes_parts [OF a [THEN conjunct1]] by simp
    ultimately show "ns = existence_part c @ subject_part S P c
              @ concat (map (member_notes S P (member_laws d) (name c)) ios)
              @ formable_part P c"
      by simp
  qed
  have no_table: "diplo_io_member_laws d = None \<longrightarrow> member_laws d cn = None"
    by (simp add: member_laws_def)
  have the_table: "diplo_io_member_laws d = Some table \<longrightarrow> member_laws d cn = table cn"
    by (simp add: member_laws_def)
  have excluded: "str_lower S io \<in> {''catholic_church'', ''papacy''} \<longrightarrow>
        member_notes S P L cn io = []"
    by (simp add: member_notes_def io_step_def)
  have one: "str_lower S io \<notin> {''catholic_church'', ''papacy''} \<longrightarrow>
        (\<exists>r. member_notes S P L cn io = [''Member of '' @ r])"
    by (auto simp: member_notes_def io_step_def Let_def split: option.splits)
  have listed: "str_lower S io = ''hindu_branch'' \<and> international_organizations P io = Some link
        \<and> L cn = Some of_member \<and> of_member io = Some (key # others) \<longrightarrow>
        member_notes S P L cn io =
          (let shown =
                 (case law_policies P key of
                    Some policy_display \<Rightarrow> policy_display
                  | None \<Rightarrow>
                      (case laws P key of
                         Some law_display \<Rightarrow> law_display
                       | None \<Rightarrow> str_title S (replace_underscores key)))
           in if shown \<noteq> [] then
                [''Member of [[File:IO '' @ str_lower S shown @
                 ''.png|24px]] [[International organization#Hindu Branches|'' @ shown @ '']]'']
              else [''Member of '' @ link])"
    by (simp add: member_notes_def io_step_def branch_display_of_def Let_def)
  have unlisted: "str_lower S io = ''hindu_branch'' \<and> international_organizations P io = Some link
        \<and> (L cn = None
             \<or> (\<exists>of_member. L cn = Some of_member
                   \<and> (of_member io = None \<or> of_member io = Some []))) \<longrightarrow>
        member_notes S P L cn io = [''Member of '' @ link]"
    by (auto simp: member_notes_def io_step_def branch_display_of_def Let_def)
  have ordinary: "str_lower S io \<notin> {''catholic_church'', ''papacy''}
        \<and> str_lower S io \<noteq> ''hindu_branch''
        \<and> international_organizations P io = Some link \<longrightarrow>
        member_notes S P L cn io = [''Member of '' @ link]"
    by (simp add: member_notes_def io_step_def)
  have unknown: "str_lower S io \<notin> {''catholic_church'', ''papacy''}
        \<and> international_organizations P io = None \<longrightarrow>
        member_notes S P L cn io = [''Member of {{iconify|'' @ io @ ''}}'']"
    by (simp add: member_notes_def io_step_def)
  show ?thesis
    by (intro conjI)
       (rule whole no_table the_table excluded one listed unlisted ordinary unknown)+
qed

theorem membership_notes_witness:
  "get_country_notes ascii_methods sample_parser sample_country = Inr (sample_notes, None)
   \<and> sample_notes =
       existence_part sample_country @ subject_part ascii_methods sample_parser sample_country
       @ concat (map (member_notes ascii_methods sample_parser (member_laws sample_diplomacy) ''VIJ'')
                   [''catholic_church'', ''hindu_branch'', ''hre'', ''unknown_league''])
       @ formable_part sample_parser sample_country
   \<and> member_notes ascii_methods sample_parser (member_laws sample_diplomacy) ''VIJ'' ''catholic_church'' = []
   \<and> member_notes ascii_methods sample_parser (member_laws sample_diplomacy) ''VIJ'' ''hindu_branch'' =
       [''Member of [[File:IO shaivism branch.png|24px]] [[International organization#Hindu Branches|Shaivism Branch]]'']
   \<and> member_notes ascii_methods sample_parser (member_laws sample_diplomacy) ''VIJ'' ''hre'' =
       [''Member of [[HRE]]'']
   \<and> member_notes ascii_methods sample_parser (member_laws sample_diplomacy) ''VIJ'' ''unknown_league'' =
       [''Member of {{iconify|unknown_league}}'']"
proof -
  have d: "diplomacy_relationships sample_parser = Some sample_diplomacy"
    by (simp add: sample_parser_def)
  have m: "diplo_io_members sample_diplomacy =
      Some [''VIJ'' \<mapsto> [''catholic_church'', ''hindu_branch'', ''hre'', ''unknown_league'']]"
    by (simp add: sample_diplomacy_def)
  have v: "name sample_country = ''VIJ''"
    by (simp add: sample_country_def)
  have n: "[''VIJ'' \<mapsto> [''catholic_church'', ''hindu_branch'', ''hre'', ''unknown_league'']]
             (name sample_country)
           = Some [''catholic_church'', ''hindu_branch'', ''hre'', ''unknown_league'']"
    unfolding v by simp
  note w = membership_notes [where S = ascii_methods and P = sample_parser
      and c = sample_country, THEN conjunct1, THEN spec,
      THEN spec, THEN spec, THEN spec, THEN spec, THEN mp]
  have parts: "sample_notes =
       existence_part sample_country @ subject_part ascii_methods sample_parser sample_country
       @ concat (map (member_notes ascii_methods sample_parser (member_laws sample_diplomacy)
                        (name sample_country))
                   [''catholic_church'', ''hindu_branch'', ''hre'', ''unknown_league''])
       @ formable_part sample_parser sample_country"
    by (rule w [OF conjI [OF sample_country_notes conjI [OF d conjI [OF m n]]]])
  show ?thesis
    using parts sample_country_notes sample_member_notes unfolding v
    by (intro conjI) assumption+
qed

theorem membership_notes_counterexample:
  "get_country_notes ascii_methods
        (sample_parser\<lparr>diplomacy_relationships :=
                         Some (sample_diplomacy\<lparr>diplo_io_member_laws := None\<rparr>)\<rparr>)
        sample_country
      = Inr ([''Does not exist in 1337'',
              ''Tributary of {{flag|DEL}}'',
              ''Member of [[Hindu Branch]]'',
              ''Member of [[HRE]]'',
              ''Member of {{iconify|unknown_league}}'',
              formable_note], None)
   \<and> (case member_laws sample_diplomacy ''VIJ'' of
         None \<Rightarrow> None
       | Some of_member \<Rightarrow> of_member ''hindu_branch'') = Some [''shaivism_branch'']
   \<and> get_country_notes ascii_methods
        (sample_parser\<lparr>international_organizations := [''hre'' \<mapsto> ''[[HRE]]'']\<rparr>)
        sample_country
      = Inr ([''Does not exist in 1337'',
              ''Tributary of {{flag|DEL}}'',
              ''Member of {{iconify|hindu_branch}}'',
              ''Member of [[HRE]]'',
              ''Member of {{iconify|unknown_league}}'',
              formable_note], None)"
  by code_simp

text \<open>
  C8. The notes returned by \<open>get_country_notes\<close> are, in this order: the existence
  note if it is emitted, the subject note if it is emitted, the membership notes in the
  order of the country's list of organizations, and last the formable note, which is
  emitted when the target tag of some formable country is the tag of the country.
\<close>

theorem notes_order:
  "(\<forall>notes nd. get_country_notes S P c = Inr (notes, nd) \<longrightarrow>
      notes = existence_part c @ subject_part S P c @ membership_part S P c @ formable_part P c)
   \<and> (readable P c \<longrightarrow> (\<exists>notes. get_country_notes S P c = Inr (notes, None)))
   \<and> existence_part c = (if does_not_exist c then [existence_note] else [])
   \<and> length (subject_part S P c) \<le> 1
   \<and> (\<forall>d iom ios. diplomacy_relationships P = Some d \<and> diplo_io_members d = Some iom
        \<and> iom (name c) = Some ios \<longrightarrow>
        membership_part S P c = concat (map (member_notes S P (member_laws d) (name c)) ios))
   \<and> formable_part P c =
       (if (\<exists>fc \<in> set (formable_countries P). fc = name c) then [formable_note] else [])"
proof -
  have whole: "\<forall>notes nd. get_country_notes S P c = Inr (notes, nd) \<longrightarrow>
      notes = existence_part c @ subject_part S P c @ membership_part S P c @ formable_part P c"
    using get_country_notes_parts [where S = S and P = P and c = c] by blast
  have returns: "readable P c \<longrightarrow> (\<exists>notes. get_country_notes S P c = Inr (notes, None))"
    using get_country_notes_returns [where P = P and c = c and S = S] by blast
  have first: "existence_part c = (if does_not_exist c then [existence_note] else [])"
    by (simp add: existence_part_def)
  have second: "length (subject_part S P c) \<le> 1"
    by (simp add: subject_part_def split: option.splits)
  have third: "\<forall>d iom ios. diplomacy_relationships P = Some d \<and> diplo_io_members d = Some iom
        \<and> iom (name c) = Some ios \<longrightarrow>
        membership_part S P c = concat (map (member_notes S P (member_laws d) (name c)) ios)"
    by (simp add: membership_part_def)
  have fourth: "formable_part P c =
       (if (\<exists>fc \<in> set (formable_countries P). fc = name c) then [formable_note] else [])"
    by (auto simp: formable_part_def)
  show ?thesis
    by (intro conjI) (rule whole returns first second third fourth)+
qed

theorem notes_order_witness:
  "readable sample_parser sample_country
   \<and> get_country_notes ascii_methods sample_parser sample_country = Inr (sample_notes, None)
   \<and> sample_notes =
       existence_part sample_country @ subject_part ascii_methods sample_parser sample_country
       @ membership_part ascii_methods sample_parser sample_country
       @ formable_part sample_parser sample_country
   \<and> existence_part sample_country = [''Does not exist in 1337'']
   \<and> subject_part ascii_methods sample_parser sample_country = [''Tributary of {{flag|DEL}}'']
   \<and> membership_part ascii_methods sample_parser sample_country =
       [''Member of [[File:IO shaivism branch.png|24px]] [[International organization#Hindu Branches|Shaivism Branch]]'',
        ''Member of [[HRE]]'',
        ''Member of {{iconify|unknown_league}}'']
   \<and> formable_part sample_parser sample_country = [formable_note]"
proof -
  have "sample_notes =
       existence_part sample_country @ subject_part ascii_methods sample_parser sample_country
       @ membership_part ascii_methods sample_parser sample_country
       @ formable_part sample_parser sample_country"
    using notes_order [where S = ascii_methods and P = sample_parser and c = sample_country] sample_country_notes by blast
  then show ?thesis
    using sample_readable sample_country_notes sample_parts by simp
qed

end
